theory Spec2Isabelle
  imports Complex_Main
begin

section \<open>Python values\<close>

text \<open>
  The program is a Python script working on floats. The two calculations are embedded
  twice. In the first embedding arithmetic on finite values is exact, over \<open>real\<close>:
  rounding, overflow and underflow of the 64-bit representation are outside of it. What
  the script does beyond arithmetic is kept: the \<open>+inf\<close> sentinel and the values
  that arise from it, the exceptions raised by a division by zero, by \<open>math.log10\<close>
  outside its domain, by a missing dictionary key and by a call whose keyword arguments do
  not fit the signature. The second embedding (the functions whose names end in
  \<open>_faixa\<close>) keeps the range of the floats as well: a result that overflows is
  infinite, or raises OverflowError where the operator is \<open>**\<close>, and a result that
  underflows is zero, so that a later division by it raises ZeroDivisionError. Rounding
  inside the range is outside both embeddings.
\<close>

datatype py_error = KeyError | ZeroDivisionError | ValueError | TypeError | OverflowError

datatype pyfloat = Fin real | PInf | NInf | NaN

definition py_bind :: "py_error + 'a \<Rightarrow> ('a \<Rightarrow> py_error + 'b) \<Rightarrow> py_error + 'b" where
  "py_bind m f = (case m of Inl e \<Rightarrow> Inl e | Inr x \<Rightarrow> f x)"

text \<open>\<open>a / b\<close> on finite floats: Python raises ZeroDivisionError when \<open>b\<close> is zero.\<close>

definition py_div :: "real \<Rightarrow> real \<Rightarrow> py_error + real" where
  "py_div a b = (if b = 0 then Inl ZeroDivisionError else Inr (a / b))"

text \<open>\<open>math.log10(x)\<close>: a ValueError (math domain error) when \<open>x \<le> 0\<close>.\<close>

definition py_log10 :: "real \<Rightarrow> py_error + real" where
  "py_log10 x = (if x > 0 then Inr (log 10 x) else Inl ValueError)"

text \<open>Addition, multiplication, division and comparison when a value may be infinite or NaN.\<close>

fun fadd :: "pyfloat \<Rightarrow> pyfloat \<Rightarrow> pyfloat" where
  "fadd (Fin a) (Fin b) = Fin (a + b)"
| "fadd NaN _ = NaN"
| "fadd _ NaN = NaN"
| "fadd PInf NInf = NaN"
| "fadd NInf PInf = NaN"
| "fadd PInf _ = PInf"
| "fadd _ PInf = PInf"
| "fadd NInf _ = NInf"
| "fadd _ NInf = NInf"

fun fmul :: "pyfloat \<Rightarrow> pyfloat \<Rightarrow> pyfloat" where
  "fmul (Fin a) (Fin b) = Fin (a * b)"
| "fmul NaN _ = NaN"
| "fmul _ NaN = NaN"
| "fmul PInf (Fin b) = (if b = 0 then NaN else if b > 0 then PInf else NInf)"
| "fmul NInf (Fin b) = (if b = 0 then NaN else if b > 0 then NInf else PInf)"
| "fmul (Fin a) PInf = (if a = 0 then NaN else if a > 0 then PInf else NInf)"
| "fmul (Fin a) NInf = (if a = 0 then NaN else if a > 0 then NInf else PInf)"
| "fmul PInf PInf = PInf"
| "fmul PInf NInf = NInf"
| "fmul NInf PInf = NInf"
| "fmul NInf NInf = PInf"

fun fdiv :: "pyfloat \<Rightarrow> pyfloat \<Rightarrow> py_error + pyfloat" where
  "fdiv (Fin a) (Fin b) = (if b = 0 then Inl ZeroDivisionError else Inr (Fin (a / b)))"
| "fdiv PInf (Fin b) =
     (if b = 0 then Inl ZeroDivisionError else if b > 0 then Inr PInf else Inr NInf)"
| "fdiv NInf (Fin b) =
     (if b = 0 then Inl ZeroDivisionError else if b > 0 then Inr NInf else Inr PInf)"
| "fdiv NaN (Fin b) = (if b = 0 then Inl ZeroDivisionError else Inr NaN)"
| "fdiv _ NaN = Inr NaN"
| "fdiv (Fin a) _ = Inr (Fin 0)"
| "fdiv _ _ = Inr NaN"

text \<open>The quotient by a finite non-zero divisor, where \<open>fdiv\<close> does not raise.\<close>

fun fquot :: "pyfloat \<Rightarrow> real \<Rightarrow> pyfloat" where
  "fquot (Fin a) b = Fin (a / b)"
| "fquot PInf b = (if b > 0 then PInf else NInf)"
| "fquot NInf b = (if b > 0 then NInf else PInf)"
| "fquot NaN b = NaN"

fun fgt :: "pyfloat \<Rightarrow> pyfloat \<Rightarrow> bool" where
  "fgt (Fin a) (Fin b) = (a > b)"
| "fgt NaN _ = False"
| "fgt _ NaN = False"
| "fgt PInf PInf = False"
| "fgt PInf _ = True"
| "fgt _ PInf = False"
| "fgt NInf _ = False"
| "fgt _ NInf = True"

definition flt :: "pyfloat \<Rightarrow> pyfloat \<Rightarrow> bool" where
  "flt a b = fgt b a"

section \<open>The fluid table\<close>

record fluido =
  rho :: real
  nu :: real

text \<open>The keys of \<open>FLUIDOS\<close>, as UTF-8 bytes.\<close>

definition agua :: string where
  "agua = CHR 0xC3 # CHR 0x81 # ''gua a 20'' @ [CHR 0xC2, CHR 0xB0] @ ''C''"

definition etanol :: string where
  "etanol = ''Etanol a 20'' @ [CHR 0xC2, CHR 0xB0] @ ''C''"

definition glicerina :: string where
  "glicerina = ''Glicerina a 20'' @ [CHR 0xC2, CHR 0xB0] @ ''C''"

definition oleo_leve :: string where
  "oleo_leve = CHR 0xC3 # CHR 0x93 # ''leo Leve (gen'' @ [CHR 0xC3, CHR 0xA9] @ ''rico)''"

definition FLUIDOS :: "string \<rightharpoonup> fluido" where
  "FLUIDOS = map_of
     [(agua, \<lparr>rho = 998.2, nu = 1.004 / 10 ^ 6\<rparr>),
      (etanol, \<lparr>rho = 789.0, nu = 1.51 / 10 ^ 6\<rparr>),
      (glicerina, \<lparr>rho = 1261.0, nu = 1.49 / 10 ^ 3\<rparr>),
      (oleo_leve, \<lparr>rho = 880.0, nu = 1.5 / 10 ^ 5\<rparr>)]"

section \<open>calcular\_perda\_carga\<close>

record perdas =
  principal :: pyfloat
  localizada :: pyfloat
  velocidade :: pyfloat

text \<open>
  Lines 44 to 51: the friction factor from the Reynolds number. \<open>reynolds**0.9\<close> is
  evaluated only where \<open>reynolds > 4000\<close>, where it is the real power.
\<close>

definition fator_atrito :: "real \<Rightarrow> real \<Rightarrow> real \<Rightarrow> py_error + real" where
  "fator_atrito reynolds rugosidade_m diametro_m =
     (if reynolds > 4000 then
        py_bind (py_div rugosidade_m (3.7 * diametro_m)) (\<lambda>rel.
        py_bind (py_div 5.74 (reynolds powr 0.9)) (\<lambda>re_term.
        let termo_log = rel + re_term in
        if termo_log > 0 then
          py_bind (py_log10 termo_log) (\<lambda>lg. py_div 0.25 (lg ^ 2))
        else Inr 0))
      else if reynolds > 0 then py_div 64 reynolds
      else Inr 0)"

definition calcular_perda_carga ::
  "real \<Rightarrow> real \<Rightarrow> real \<Rightarrow> real \<Rightarrow> real \<Rightarrow> string \<Rightarrow> py_error + perdas" where
  "calcular_perda_carga vazao_m3h diametro_mm comprimento_m rugosidade_mm k_total
       fluido_selecionado =
     (if diametro_mm \<le> 0 then
        Inr \<lparr>principal = PInf, localizada = PInf, velocidade = PInf\<rparr>
      else
        let vazao_m3s = vazao_m3h / 3600;
            diametro_m = diametro_mm / 1000;
            rugosidade_m = rugosidade_mm / 1000
        in case FLUIDOS fluido_selecionado of
             None \<Rightarrow> Inl KeyError
           | Some fl \<Rightarrow>
               let area = (pi * diametro_m ^ 2) / 4 in
               py_bind (py_div vazao_m3s area) (\<lambda>veloc.
               py_bind (if nu fl > 0 then py_div (veloc * diametro_m) (nu fl) else Inr 0)
                 (\<lambda>reynolds.
               py_bind (fator_atrito reynolds rugosidade_m diametro_m) (\<lambda>f.
               py_bind (py_div comprimento_m diametro_m) (\<lambda>l_d.
               let perda_carga_principal = f * l_d * (veloc ^ 2 / (2 * 9.81));
                   perda_carga_localizada = k_total * (veloc ^ 2 / (2 * 9.81))
               in Inr \<lparr>principal = Fin perda_carga_principal,
                        localizada = Fin perda_carga_localizada,
                        velocidade = Fin veloc\<rparr>)))))"

section \<open>calcular\_analise\_energetica\<close>

record energia =
  potencia_eletrica_kW :: pyfloat
  consumo_mensal_kWh :: pyfloat
  custo_mensal :: pyfloat
  custo_anual :: pyfloat

text \<open>
  \<open>h_man\<close> is the sum of the head losses, which are infinite for a non-positive
  diameter, so it is a \<open>pyfloat\<close>; the other arguments come from the form and are finite.
\<close>

definition calcular_analise_energetica ::
  "real \<Rightarrow> pyfloat \<Rightarrow> real \<Rightarrow> real \<Rightarrow> real \<Rightarrow> real \<Rightarrow> string \<Rightarrow> py_error + energia" where
  "calcular_analise_energetica vazao_m3h h_man eficiencia_bomba eficiencia_motor horas_dia
       custo_kwh fluido_selecionado =
     (case FLUIDOS fluido_selecionado of
        None \<Rightarrow> Inl KeyError
      | Some fl \<Rightarrow>
          let g = 9.81;
              vazao_m3s = vazao_m3h / 3600;
              potencia_hidraulica_W = fmul (Fin (vazao_m3s * rho fl * g)) h_man
          in
          py_bind (if eficiencia_bomba > 0
                   then fdiv potencia_hidraulica_W (Fin eficiencia_bomba) else Inr (Fin 0))
            (\<lambda>potencia_eixo_W.
          py_bind (if eficiencia_motor > 0
                   then fdiv potencia_eixo_W (Fin eficiencia_motor) else Inr (Fin 0))
            (\<lambda>potencia_eletrica_W.
          py_bind (fdiv potencia_eletrica_W (Fin 1000)) (\<lambda>pot_kW.
          let consumo_diario_kWh = fmul pot_kW (Fin horas_dia);
              custo_ano = fmul (fmul consumo_diario_kWh (Fin 365)) (Fin custo_kwh)
          in Inr \<lparr>potencia_eletrica_kW = pot_kW,
                   consumo_mensal_kWh = fmul consumo_diario_kWh (Fin 30),
                   custo_mensal = fmul (fmul consumo_diario_kWh (Fin 30)) (Fin custo_kwh),
                   custo_anual = custo_ano\<rparr>))))"

section \<open>gerar\_sugestoes\<close>

text \<open>
  Each advisory is a fixed text; the two velocity warnings also print the velocity, which
  they carry here. The efficiencies come from the sliders; the annual cost and the
  velocity are results of the two calculations.
\<close>

datatype sugestao =
    VelocidadeAlta pyfloat
  | VelocidadeBaixa pyfloat
  | BombaIneficiente
  | MotorIneficiente
  | InversorFrequencia
  | ManutencaoPreventiva

definition gerar_sugestoes :: "real \<Rightarrow> real \<Rightarrow> pyfloat \<Rightarrow> pyfloat \<Rightarrow> sugestao list" where
  "gerar_sugestoes eficiencia_bomba eficiencia_motor custo_ano veloc =
     (let s0 = [];
          s1 = (if fgt veloc (Fin 3.0) then s0 @ [VelocidadeAlta veloc]
                else if flt veloc (Fin 0.5) then s0 @ [VelocidadeBaixa veloc]
                else s0);
          s2 = (if eficiencia_bomba < 0.6 then s1 @ [BombaIneficiente] else s1);
          s3 = (if eficiencia_motor < 0.85 then s2 @ [MotorIneficiente] else s2);
          s4 = (if fgt custo_ano (Fin 5000) then s3 @ [InversorFrequencia] else s3)
      in s4 @ [ManutencaoPreventiva])"

text \<open>
  The position of each advisory in the fixed sequence of rules; an output that follows
  the sequence has strictly increasing positions.
\<close>

fun ordem :: "sugestao \<Rightarrow> nat" where
  "ordem (VelocidadeAlta _) = 1"
| "ordem (VelocidadeBaixa _) = 2"
| "ordem BombaIneficiente = 3"
| "ordem MotorIneficiente = 4"
| "ordem InversorFrequencia = 5"
| "ordem ManutencaoPreventiva = 6"

section \<open>The main script: head losses, then energy\<close>


section \<open>gerar\_grafico\_diametro\_custo\<close>

text \<open>
  The sweep receives its fixed parameters as keyword arguments and passes the whole
  dictionary on to both calculations. A dictionary is a list of named values, read with
  \<open>map_of\<close>.
\<close>

datatype pyval = Num real | Str string

type_synonym kwargs = "(string \<times> pyval) list"

definition params_perda_carga :: "string list" where
  "params_perda_carga =
     [''vazao_m3h'', ''diametro_mm'', ''comprimento_m'', ''rugosidade_mm'', ''k_total'',
      ''fluido_selecionado'']"

definition params_analise_energetica :: "string list" where
  "params_analise_energetica =
     [''vazao_m3h'', ''h_man'', ''eficiencia_bomba'', ''eficiencia_motor'', ''horas_dia'',
      ''custo_kwh'', ''fluido_selecionado'']"

text \<open>
  A call \<open>f(x=v, **kwargs)\<close> of a function whose parameters all lack a default and
  which takes no \<open>**\<close> parameter: Python raises TypeError when \<open>x\<close> is also a key of
  the dictionary, when a key is not a parameter, and when a parameter gets no value.
\<close>

definition liga :: "string list \<Rightarrow> string \<Rightarrow> kwargs \<Rightarrow> bool" where
  "liga params explicito kw \<longleftrightarrow>
     explicito \<notin> set (map fst kw) \<and> set (explicito # map fst kw) = set params"

text \<open>
  The value bound to a numeric parameter, and to the fluid name. A value of the other kind
  is answered with TypeError here, at the call.
\<close>

definition arg_num :: "kwargs \<Rightarrow> string \<Rightarrow> py_error + real" where
  "arg_num kw k = (case map_of kw k of Some (Num x) \<Rightarrow> Inr x | _ \<Rightarrow> Inl TypeError)"

definition arg_str :: "kwargs \<Rightarrow> string \<Rightarrow> py_error + string" where
  "arg_str kw k = (case map_of kw k of Some (Str x) \<Rightarrow> Inr x | _ \<Rightarrow> Inl TypeError)"

text \<open>Line 154: \<open>calcular_perda_carga(diametro_mm=d_mm, **kwargs)\<close>.\<close>

definition chamar_perda_carga :: "real \<Rightarrow> kwargs \<Rightarrow> py_error + perdas" where
  "chamar_perda_carga d_mm kw =
     (if \<not> liga params_perda_carga ''diametro_mm'' kw then Inl TypeError
      else
        py_bind (arg_num kw ''vazao_m3h'') (\<lambda>vazao_m3h.
        py_bind (arg_num kw ''comprimento_m'') (\<lambda>comprimento_m.
        py_bind (arg_num kw ''rugosidade_mm'') (\<lambda>rugosidade_mm.
        py_bind (arg_num kw ''k_total'') (\<lambda>k_total.
        py_bind (arg_str kw ''fluido_selecionado'') (\<lambda>fluido_selecionado.
        calcular_perda_carga vazao_m3h d_mm comprimento_m rugosidade_mm k_total
          fluido_selecionado))))))"

text \<open>Line 158: \<open>calcular_analise_energetica(h_man=h_man_calculado, **kwargs)\<close>.\<close>

definition chamar_analise_energetica :: "pyfloat \<Rightarrow> kwargs \<Rightarrow> py_error + energia" where
  "chamar_analise_energetica h_man kw =
     (if \<not> liga params_analise_energetica ''h_man'' kw then Inl TypeError
      else
        py_bind (arg_num kw ''vazao_m3h'') (\<lambda>vazao_m3h.
        py_bind (arg_num kw ''eficiencia_bomba'') (\<lambda>eficiencia_bomba.
        py_bind (arg_num kw ''eficiencia_motor'') (\<lambda>eficiencia_motor.
        py_bind (arg_num kw ''horas_dia'') (\<lambda>horas_dia.
        py_bind (arg_num kw ''custo_kwh'') (\<lambda>custo_kwh.
        py_bind (arg_str kw ''fluido_selecionado'') (\<lambda>fluido_selecionado.
        calcular_analise_energetica vazao_m3h h_man eficiencia_bomba eficiencia_motor
          horas_dia custo_kwh fluido_selecionado)))))))"

text \<open>\<open>np.linspace(start, stop, num)\<close>: \<open>num\<close> samples, \<open>start + i * step\<close>.\<close>

definition linspace :: "real \<Rightarrow> real \<Rightarrow> nat \<Rightarrow> real list" where
  "linspace start stop num =
     map (\<lambda>i. start + real i * ((stop - start) / real (num - 1))) [0..<num]"

text \<open>The loop of lines 152 to 159 over the diameters.\<close>

fun custos_anuais :: "real \<Rightarrow> kwargs \<Rightarrow> real list \<Rightarrow> py_error + pyfloat list" where
  "custos_anuais h_geometrica kw [] = Inr []"
| "custos_anuais h_geometrica kw (d_mm # ds) =
     py_bind (chamar_perda_carga d_mm kw) (\<lambda>perdas.
     let h_man_calculado =
           fadd (fadd (Fin h_geometrica) (principal perdas)) (localizada perdas)
     in py_bind (chamar_analise_energetica h_man_calculado kw) (\<lambda>resultado_energia.
        py_bind (custos_anuais h_geometrica kw ds) (\<lambda>cs.
        Inr (custo_anual resultado_energia # cs))))"

definition gerar_grafico_diametro_custo ::
  "real \<Rightarrow> real \<Rightarrow> kwargs \<Rightarrow> py_error + (real \<times> pyfloat) list" where
  "gerar_grafico_diametro_custo diametro_base_mm h_geometrica kw =
     (let diametros_mm = linspace (max 25 (diametro_base_mm * 0.5)) (diametro_base_mm * 2) 20
      in py_bind (custos_anuais h_geometrica kw diametros_mm) (\<lambda>custos.
         Inr (zip diametros_mm custos)))"

text \<open>
  Lines 240 to 254 of the script: the dictionary \<open>params_gerais\<close>, the merge of the
  parameters of both calculations, with which the script calls the sweep.
\<close>

definition params_gerais ::
  "real \<Rightarrow> real \<Rightarrow> real \<Rightarrow> real \<Rightarrow> string \<Rightarrow> real \<Rightarrow> real \<Rightarrow> real \<Rightarrow> real \<Rightarrow> kwargs" where
  "params_gerais vazao comp_tub rug_tub k_total_acessorios fluido_selecionado
       rend_bomba rend_motor horas_por_dia tarifa_energia =
     [(''vazao_m3h'', Num vazao), (''comprimento_m'', Num comp_tub),
      (''rugosidade_mm'', Num rug_tub), (''k_total'', Num k_total_acessorios),
      (''fluido_selecionado'', Str fluido_selecionado),
      (''eficiencia_bomba'', Num rend_bomba), (''eficiencia_motor'', Num rend_motor),
      (''horas_dia'', Num horas_por_dia), (''custo_kwh'', Num tarifa_energia)]"

section \<open>The local variables of calcular\_perda\_carga as functions of its arguments\<close>

definition veloc_de :: "real \<Rightarrow> real \<Rightarrow> real" where
  "veloc_de vazao_m3h diametro_mm = (vazao_m3h / 3600) / ((pi * (diametro_mm / 1000) ^ 2) / 4)"

definition reynolds_de :: "real \<Rightarrow> real \<Rightarrow> real \<Rightarrow> real" where
  "reynolds_de vazao_m3h diametro_mm visc =
     (veloc_de vazao_m3h diametro_mm * (diametro_mm / 1000)) / visc"

definition termo_log_de :: "real \<Rightarrow> real \<Rightarrow> real \<Rightarrow> real \<Rightarrow> real" where
  "termo_log_de vazao_m3h diametro_mm rugosidade_mm visc =
     (rugosidade_mm / 1000) / (3.7 * (diametro_mm / 1000))
       + 5.74 / (reynolds_de vazao_m3h diametro_mm visc powr 0.9)"

definition fator_de :: "real \<Rightarrow> real \<Rightarrow> real \<Rightarrow> real \<Rightarrow> real" where
  "fator_de vazao_m3h diametro_mm rugosidade_mm visc =
     (if 4000 < reynolds_de vazao_m3h diametro_mm visc then
        (if 0 < termo_log_de vazao_m3h diametro_mm rugosidade_mm visc
         then 0.25 / (log 10 (termo_log_de vazao_m3h diametro_mm rugosidade_mm visc)) ^ 2
         else 0)
      else if 0 < reynolds_de vazao_m3h diametro_mm visc
      then 64 / reynolds_de vazao_m3h diametro_mm visc
      else 0)"



section \<open>The range of the floats\<close>

text \<open>
  A second embedding of the two calculations, in which the range of the 64-bit floats is
  kept. A result whose magnitude is 2^1024 - 2^970 or more is infinite; a result whose
  magnitude is 2^-1075 or less is zero; a result between the two is kept as it is, so
  that rounding inside the range is still outside the model. The operators \<open>+\<close>,
  \<open>*\<close> and \<open>/\<close> give the infinite value or the zero silently. The operator
  \<open>**\<close> raises OverflowError where its result overflows and gives zero where it
  underflows.
\<close>

definition OVF :: real where
  "OVF = 2 ^ 1024 - 2 ^ 970"

definition UNF :: real where
  "UNF = 1 / 2 ^ 1075"

definition arred :: "real \<Rightarrow> pyfloat" where
  "arred x = (if OVF \<le> x then PInf
              else if x \<le> - OVF then NInf
              else if \<bar>x\<bar> \<le> UNF then Fin 0
              else Fin x)"

fun radd :: "pyfloat \<Rightarrow> pyfloat \<Rightarrow> pyfloat" where
  "radd (Fin a) (Fin b) = arred (a + b)"
| "radd x y = fadd x y"

fun rmul :: "pyfloat \<Rightarrow> pyfloat \<Rightarrow> pyfloat" where
  "rmul (Fin a) (Fin b) = arred (a * b)"
| "rmul x y = fmul x y"

fun rdiv :: "pyfloat \<Rightarrow> pyfloat \<Rightarrow> py_error + pyfloat" where
  "rdiv (Fin a) (Fin b) = (if b = 0 then Inl ZeroDivisionError else Inr (arred (a / b)))"
| "rdiv x y = fdiv x y"

text \<open>\<open>x ** 2\<close>: the square of an infinite value is \<open>+inf\<close>, without an exception.\<close>

fun rpow2 :: "pyfloat \<Rightarrow> py_error + pyfloat" where
  "rpow2 (Fin x) = (if OVF \<le> x ^ 2 then Inl OverflowError else Inr (arred (x ^ 2)))"
| "rpow2 PInf = Inr PInf"
| "rpow2 NInf = Inr PInf"
| "rpow2 NaN = Inr NaN"

text \<open>
  \<open>x ** 0.9\<close>, which the code evaluates only where \<open>x > 4000\<close>, where it is the real
  power.
\<close>

fun rpow09 :: "pyfloat \<Rightarrow> py_error + pyfloat" where
  "rpow09 (Fin x) = (if OVF \<le> x powr 0.9 then Inl OverflowError else Inr (arred (x powr 0.9)))"
| "rpow09 PInf = Inr PInf"
| "rpow09 NInf = Inr PInf"
| "rpow09 NaN = Inr NaN"

text \<open>\<open>math.log10(x)\<close>: \<open>+inf\<close> at \<open>+inf\<close>, NaN at NaN, a ValueError at \<open>-inf\<close>.\<close>

fun rlog10 :: "pyfloat \<Rightarrow> py_error + pyfloat" where
  "rlog10 (Fin x) = (if x > 0 then Inr (arred (log 10 x)) else Inl ValueError)"
| "rlog10 PInf = Inr PInf"
| "rlog10 NInf = Inl ValueError"
| "rlog10 NaN = Inr NaN"


text \<open>Lines 44 to 51.\<close>

definition fator_atrito_faixa :: "pyfloat \<Rightarrow> pyfloat \<Rightarrow> pyfloat \<Rightarrow> py_error + pyfloat" where
  "fator_atrito_faixa reynolds rugosidade_m diametro_m =
     (if fgt reynolds (Fin 4000) then
        py_bind (rdiv rugosidade_m (rmul (Fin 3.7) diametro_m)) (\<lambda>rel.
        py_bind (rpow09 reynolds) (\<lambda>potencia.
        py_bind (rdiv (Fin 5.74) potencia) (\<lambda>re_term.
        let termo_log = radd rel re_term in
        if fgt termo_log (Fin 0) then
          py_bind (rlog10 termo_log) (\<lambda>lg.
          py_bind (rpow2 lg) (\<lambda>lg2. rdiv (Fin 0.25) lg2))
        else Inr (Fin 0))))
      else if fgt reynolds (Fin 0) then rdiv (Fin 64) reynolds
      else Inr (Fin 0))"

text \<open>The expression \<open>velocidade**2 / (2 * 9.81)\<close> of lines 54 and 57.\<close>

definition carga_cinetica :: "pyfloat \<Rightarrow> py_error + pyfloat" where
  "carga_cinetica veloc = py_bind (rpow2 veloc) (\<lambda>v2. rdiv v2 (rmul (Fin 2) (Fin 9.81)))"

text \<open>
  Lines 25 to 63. In line 54 the product of the friction factor and of
  \<open>comprimento_m / diametro_m\<close> is evaluated before \<open>velocidade**2\<close>.
\<close>

definition calcular_perda_carga_faixa ::
  "real \<Rightarrow> real \<Rightarrow> real \<Rightarrow> real \<Rightarrow> real \<Rightarrow> string \<Rightarrow> py_error + perdas" where
  "calcular_perda_carga_faixa vazao_m3h diametro_mm comprimento_m rugosidade_mm k_total
       fluido_selecionado =
     (if diametro_mm \<le> 0 then
        Inr \<lparr>principal = PInf, localizada = PInf, velocidade = PInf\<rparr>
      else
        py_bind (rdiv (Fin vazao_m3h) (Fin 3600)) (\<lambda>vazao_m3s.
        py_bind (rdiv (Fin diametro_mm) (Fin 1000)) (\<lambda>diametro_m.
        py_bind (rdiv (Fin rugosidade_mm) (Fin 1000)) (\<lambda>rugosidade_m.
        case FLUIDOS fluido_selecionado of
          None \<Rightarrow> Inl KeyError
        | Some fl \<Rightarrow>
            py_bind (rpow2 diametro_m) (\<lambda>d2.
            py_bind (rdiv (rmul (Fin pi) d2) (Fin 4)) (\<lambda>area.
            py_bind (rdiv vazao_m3s area) (\<lambda>veloc.
            py_bind (if nu fl > 0 then rdiv (rmul veloc diametro_m) (Fin (nu fl))
                     else Inr (Fin 0)) (\<lambda>reynolds.
            py_bind (fator_atrito_faixa reynolds rugosidade_m diametro_m) (\<lambda>f.
            py_bind (rdiv (Fin comprimento_m) diametro_m) (\<lambda>l_d.
            let f_l_d = rmul f l_d in
            py_bind (carga_cinetica veloc) (\<lambda>carga.
            let perda_carga_principal = rmul f_l_d carga in
            py_bind (carga_cinetica veloc) (\<lambda>carga'.
            let perda_carga_localizada = rmul (Fin k_total) carga' in
            Inr \<lparr>principal = perda_carga_principal,
                 localizada = perda_carga_localizada,
                 velocidade = veloc\<rparr>))))))))))))"

text \<open>Lines 67 to 85.\<close>

definition calcular_analise_energetica_faixa ::
  "real \<Rightarrow> pyfloat \<Rightarrow> real \<Rightarrow> real \<Rightarrow> real \<Rightarrow> real \<Rightarrow> string \<Rightarrow> py_error + energia" where
  "calcular_analise_energetica_faixa vazao_m3h h_man eficiencia_bomba eficiencia_motor
       horas_dia custo_kwh fluido_selecionado =
     (case FLUIDOS fluido_selecionado of
        None \<Rightarrow> Inl KeyError
      | Some fl \<Rightarrow>
          py_bind (rdiv (Fin vazao_m3h) (Fin 3600)) (\<lambda>vazao_m3s.
          let potencia_hidraulica_W =
                rmul (rmul (rmul vazao_m3s (Fin (rho fl))) (Fin 9.81)) h_man
          in
          py_bind (if eficiencia_bomba > 0
                   then rdiv potencia_hidraulica_W (Fin eficiencia_bomba) else Inr (Fin 0))
            (\<lambda>potencia_eixo_W.
          py_bind (if eficiencia_motor > 0
                   then rdiv potencia_eixo_W (Fin eficiencia_motor) else Inr (Fin 0))
            (\<lambda>potencia_eletrica_W.
          py_bind (rdiv potencia_eletrica_W (Fin 1000)) (\<lambda>pot_kW.
          let consumo_diario_kWh = rmul pot_kW (Fin horas_dia);
              custo_ano = rmul (rmul consumo_diario_kWh (Fin 365)) (Fin custo_kwh)
          in Inr \<lparr>potencia_eletrica_kW = pot_kW,
                   consumo_mensal_kWh = rmul consumo_diario_kWh (Fin 30),
                   custo_mensal = rmul (rmul consumo_diario_kWh (Fin 30)) (Fin custo_kwh),
                   custo_anual = custo_ano\<rparr>)))))"

text \<open>
  Lines 216, 217 and 227, as in \<open>analise_tubulacao\<close>: the efficiencies are the slider
  values already divided by 100.
\<close>

definition analise_tubulacao_faixa ::
  "real \<Rightarrow> real \<Rightarrow> real \<Rightarrow> real \<Rightarrow> real \<Rightarrow> string \<Rightarrow> real \<Rightarrow> real \<Rightarrow> real \<Rightarrow> real \<Rightarrow> real
     \<Rightarrow> py_error + energia" where
  "analise_tubulacao_faixa vazao diam_tub comp_tub rug_tub k_total_acessorios
       fluido_selecionado h_geometrica rend_bomba rend_motor horas_por_dia tarifa_energia =
     py_bind (calcular_perda_carga_faixa vazao diam_tub comp_tub rug_tub k_total_acessorios
                fluido_selecionado) (\<lambda>perdas_dict.
     let h_man_total =
           radd (radd (Fin h_geometrica) (principal perdas_dict)) (localizada perdas_dict)
     in calcular_analise_energetica_faixa vazao h_man_total rend_bomba rend_motor
          horas_por_dia tarifa_energia fluido_selecionado)"

text \<open>
  A real number is in the range when it is zero or its magnitude lies strictly between the
  two thresholds. The inputs of the head losses are in the range when the arguments and
  every intermediate result of lines 29 to 57, taken exactly, are in the range; the
  intermediate results of the turbulent branch count only where that branch is taken.
\<close>

definition na_faixa :: "real \<Rightarrow> bool" where
  "na_faixa x \<longleftrightarrow> x = 0 \<or> (UNF < \<bar>x\<bar> \<and> \<bar>x\<bar> < OVF)"




text \<open>A real number of magnitude between 10^-n and 10^n.\<close>

definition magnitude :: "nat \<Rightarrow> real \<Rightarrow> bool" where
  "magnitude n x \<longleftrightarrow> 1 / 10 ^ n \<le> \<bar>x\<bar> \<and> \<bar>x\<bar> \<le> 10 ^ n"

section \<open>Basic facts\<close>

lemma py_bind_Inr [simp]: "py_bind (Inr x) f = f x"
  by (simp add: py_bind_def)

lemma py_bind_Inl [simp]: "py_bind (Inl e) f = Inl e"
  by (simp add: py_bind_def)

lemma py_div_nonzero: "b \<noteq> 0 \<Longrightarrow> py_div a b = Inr (a / b)"
  by (simp add: py_div_def)

lemma FLUIDOS_agua: "FLUIDOS agua = Some \<lparr>rho = 998.2, nu = 1.004 / 10 ^ 6\<rparr>"
  by (simp add: FLUIDOS_def agua_def)

lemma FLUIDOS_cases:
  assumes "FLUIDOS s = Some fl"
  shows "fl = \<lparr>rho = 998.2, nu = 1.004 / 10 ^ 6\<rparr> \<or> fl = \<lparr>rho = 789.0, nu = 1.51 / 10 ^ 6\<rparr>
       \<or> fl = \<lparr>rho = 1261.0, nu = 1.49 / 10 ^ 3\<rparr> \<or> fl = \<lparr>rho = 880.0, nu = 1.5 / 10 ^ 5\<rparr>"
  using assms by (auto simp: FLUIDOS_def split: if_splits)

lemma FLUIDOS_nu_pos: "FLUIDOS s = Some fl \<Longrightarrow> 0 < nu fl"
  by (drule FLUIDOS_cases) auto

lemma FLUIDOS_rho_pos: "FLUIDOS s = Some fl \<Longrightarrow> 0 < rho fl"
  by (drule FLUIDOS_cases) auto

lemma dom_FLUIDOS: "dom FLUIDOS = {agua, etanol, glicerina, oleo_leve}"
  by (auto simp: FLUIDOS_def split: if_splits)

section \<open>Non-positive diameter\<close>

text \<open>
  Claim C2. For every input whose diameter is at most zero, calcular\_perda\_carga returns
  a result (it raises nothing, whatever the fluid name) whose three fields, velocity, major
  loss and minor loss, are all plus infinity.
\<close>

theorem perda_carga_diametro_nao_positivo:
  "diametro_mm \<le> 0 \<Longrightarrow>
     calcular_perda_carga vazao_m3h diametro_mm comprimento_m rugosidade_mm k_total fluido
       = Inr \<lparr>principal = PInf, localizada = PInf, velocidade = PInf\<rparr>"
  by (simp add: calcular_perda_carga_def)

theorem perda_carga_diametro_nao_positivo_witness:
  "(0::real) \<le> 0 \<and>
   calcular_perda_carga 50 0 100 0.15 5 ''no such fluid''
     = Inr \<lparr>principal = PInf, localizada = PInf, velocidade = PInf\<rparr>"
  using perda_carga_diametro_nao_positivo [of 0 50 100 "0.15" 5 "''no such fluid''"] by simp


section \<open>Energy and cost\<close>

lemma fdiv_Fin: "b \<noteq> 0 \<Longrightarrow> fdiv x (Fin b) = Inr (fquot x b)"
  by (cases x) auto

lemma analise_Some:
  assumes "FLUIDOS fl = Some p"
  shows "calcular_analise_energetica q h eb em horas c fl =
    (let ph = fmul (Fin (q / 3600 * rho p * 9.81)) h;
         pe = (if eb > 0 then fquot ph eb else Fin 0);
         pel = (if em > 0 then fquot pe em else Fin 0);
         pk = fquot pel 1000;
         cd = fmul pk (Fin horas)
     in Inr \<lparr>potencia_eletrica_kW = pk,
              consumo_mensal_kWh = fmul cd (Fin 30),
              custo_mensal = fmul (fmul cd (Fin 30)) (Fin c),
              custo_anual = fmul (fmul cd (Fin 365)) (Fin c)\<rparr>)"
  unfolding calcular_analise_energetica_def Let_def using assms
  by (auto simp add: fdiv_Fin)

lemma analise_None:
  "FLUIDOS fl = None \<Longrightarrow> calcular_analise_energetica q h eb em horas c fl = Inl KeyError"
  by (simp add: calcular_analise_energetica_def)

text \<open>
  Claim C3. On every input calcular\_analise\_energetica either fails on the fluid lookup or
  returns a result in which the monthly consumption is (power times hours per day) times 30,
  the monthly cost is that consumption times the tariff, and the annual cost is (power
  times hours per day) times 365 times the tariff. The two bases differ: on the default
  input of the form the annual cost is not twelve times the monthly cost.
\<close>

theorem analise_bases_30_e_365:
  "(case calcular_analise_energetica q h eb em horas c fl of
      Inl e \<Rightarrow> e = KeyError \<and> FLUIDOS fl = None
    | Inr r \<Rightarrow>
        consumo_mensal_kWh r = fmul (fmul (potencia_eletrica_kW r) (Fin horas)) (Fin 30)
      \<and> custo_mensal r = fmul (consumo_mensal_kWh r) (Fin c)
      \<and> custo_anual r = fmul (fmul (fmul (potencia_eletrica_kW r) (Fin horas)) (Fin 365)) (Fin c))
   \<and> (\<exists>r. calcular_analise_energetica 50 (Fin 30) 0.7 0.9 8 0.75 agua = Inr r
         \<and> custo_anual r \<noteq> fmul (Fin 12) (custo_mensal r))"
proof
  show "case calcular_analise_energetica q h eb em horas c fl of
      Inl e \<Rightarrow> e = KeyError \<and> FLUIDOS fl = None
    | Inr r \<Rightarrow>
        consumo_mensal_kWh r = fmul (fmul (potencia_eletrica_kW r) (Fin horas)) (Fin 30)
      \<and> custo_mensal r = fmul (consumo_mensal_kWh r) (Fin c)
      \<and> custo_anual r = fmul (fmul (fmul (potencia_eletrica_kW r) (Fin horas)) (Fin 365)) (Fin c)"
  proof (cases "FLUIDOS fl")
    case None
    then show ?thesis by (simp add: analise_None)
  next
    case (Some p)
    show ?thesis by (simp add: analise_Some [OF Some] Let_def del: fquot.simps fmul.simps)
  qed
next
  show "\<exists>r. calcular_analise_energetica 50 (Fin 30) 0.7 0.9 8 0.75 agua = Inr r
         \<and> custo_anual r \<noteq> fmul (Fin 12) (custo_mensal r)"
    by (simp add: analise_Some [OF FLUIDOS_agua] Let_def)
qed

text \<open>
  Claim C6. calcular\_analise\_energetica never raises a division error. With a fluid of
  the table and a pump or motor efficiency that is zero or negative, the electrical power,
  the monthly consumption and both costs are zero. With both efficiencies positive, the
  shaft power is the hydraulic power divided by the pump efficiency, the electrical power
  is the shaft power divided by the motor efficiency, and the result holds it in kW; for a
  finite head that is flow times density times 9.81 times head, over both efficiencies and
  1000.
\<close>

theorem analise_eficiencia_nao_positiva:
  "calcular_analise_energetica q h eb em horas c fl \<noteq> Inl ZeroDivisionError
   \<and> (FLUIDOS fl \<noteq> None \<longrightarrow> eb \<le> 0 \<or> em \<le> 0 \<longrightarrow>
        calcular_analise_energetica q h eb em horas c fl
          = Inr \<lparr>potencia_eletrica_kW = Fin 0, consumo_mensal_kWh = Fin 0,
                  custo_mensal = Fin 0, custo_anual = Fin 0\<rparr>)
   \<and> (\<forall>p. FLUIDOS fl = Some p \<longrightarrow> 0 < eb \<longrightarrow> 0 < em \<longrightarrow>
        (\<exists>r potencia_eixo_W potencia_eletrica_W.
            calcular_analise_energetica q h eb em horas c fl = Inr r
          \<and> fdiv (fmul (Fin (q / 3600 * rho p * 9.81)) h) (Fin eb) = Inr potencia_eixo_W
          \<and> fdiv potencia_eixo_W (Fin em) = Inr potencia_eletrica_W
          \<and> fdiv potencia_eletrica_W (Fin 1000) = Inr (potencia_eletrica_kW r)))
   \<and> (\<forall>p x. FLUIDOS fl = Some p \<longrightarrow> 0 < eb \<longrightarrow> 0 < em \<longrightarrow> h = Fin x \<longrightarrow>
        (\<exists>r. calcular_analise_energetica q h eb em horas c fl = Inr r
          \<and> potencia_eletrica_kW r = Fin (q / 3600 * rho p * 9.81 * x / eb / em / 1000)))"
proof (cases "FLUIDOS fl")
  case None
  then show ?thesis by (simp add: analise_None)
next
  case (Some p)
  show ?thesis
    by (simp add: analise_Some [OF Some] Some Let_def fdiv_Fin del: fquot.simps fmul.simps)
       (auto)
qed

theorem analise_eficiencia_nao_positiva_witness:
  "calcular_analise_energetica 50 (Fin 30) 0 0.9 8 0.75 agua
      = Inr \<lparr>potencia_eletrica_kW = Fin 0, consumo_mensal_kWh = Fin 0,
              custo_mensal = Fin 0, custo_anual = Fin 0\<rparr>
   \<and> (\<exists>r. calcular_analise_energetica 50 (Fin 30) 0.7 0.9 8 0.75 agua = Inr r
          \<and> potencia_eletrica_kW r = Fin (50 / 3600 * 998.2 * 9.81 * 30 / 0.7 / 0.9 / 1000))"
  using analise_eficiencia_nao_positiva [of 50 "Fin 30" 0 "0.9" 8 "0.75" agua]
        analise_eficiencia_nao_positiva [of 50 "Fin 30" "0.7" "0.9" 8 "0.75" agua]
  by (simp add: FLUIDOS_agua)

section \<open>Advisories\<close>

text \<open>
  Claim C7. The output of gerar\_sugestoes never holds both velocity warnings; it holds the
  high-velocity warning exactly when the velocity is above 3.0, the low-velocity warning
  exactly when it is not above 3.0 and below 0.5, and neither for a velocity from 0.5 to
  3.0. It is never empty and its last element is the preventive-maintenance advisory. The
  pump, motor and annual-cost advisories are present exactly when the pump efficiency is
  below 0.6, the motor efficiency below 0.85 and the annual cost above 5000. The advisories
  appear in the fixed order of the rules, each at most once.
\<close>

theorem sugestoes_regras:
  "\<not> ((\<exists>a. VelocidadeAlta a \<in> set (gerar_sugestoes eb em ca v))
        \<and> (\<exists>b. VelocidadeBaixa b \<in> set (gerar_sugestoes eb em ca v)))
   \<and> ((\<exists>a. VelocidadeAlta a \<in> set (gerar_sugestoes eb em ca v)) \<longleftrightarrow> fgt v (Fin 3.0))
   \<and> ((\<exists>b. VelocidadeBaixa b \<in> set (gerar_sugestoes eb em ca v))
        \<longleftrightarrow> \<not> fgt v (Fin 3.0) \<and> flt v (Fin 0.5))
   \<and> (\<forall>x. v = Fin x \<longrightarrow> 0.5 \<le> x \<longrightarrow> x \<le> 3.0 \<longrightarrow>
         (\<forall>a. VelocidadeAlta a \<notin> set (gerar_sugestoes eb em ca v)
            \<and> VelocidadeBaixa a \<notin> set (gerar_sugestoes eb em ca v)))
   \<and> gerar_sugestoes eb em ca v \<noteq> []
   \<and> last (gerar_sugestoes eb em ca v) = ManutencaoPreventiva
   \<and> (BombaIneficiente \<in> set (gerar_sugestoes eb em ca v) \<longleftrightarrow> eb < 0.6)
   \<and> (MotorIneficiente \<in> set (gerar_sugestoes eb em ca v) \<longleftrightarrow> em < 0.85)
   \<and> (InversorFrequencia \<in> set (gerar_sugestoes eb em ca v) \<longleftrightarrow> fgt ca (Fin 5000))
   \<and> sorted_wrt (<) (map ordem (gerar_sugestoes eb em ca v))"
  by (cases v) (auto simp: gerar_sugestoes_def Let_def flt_def sorted_wrt_append)

theorem sugestoes_regras_witness:
  "gerar_sugestoes 0.5 0.9 (Fin 6000) (Fin 1)
      = [BombaIneficiente, InversorFrequencia, ManutencaoPreventiva]
   \<and> (\<forall>a. VelocidadeAlta a \<notin> set (gerar_sugestoes 0.5 0.9 (Fin 6000) (Fin 1))
            \<and> VelocidadeBaixa a \<notin> set (gerar_sugestoes 0.5 0.9 (Fin 6000) (Fin 1)))"
  using sugestoes_regras [of "0.5" "0.9" "Fin 6000" "Fin 1"]
  by (simp add: gerar_sugestoes_def flt_def)

section \<open>The fluid name\<close>

lemma py_bind_eq_Inl:
  "py_bind m f = Inl e \<longleftrightarrow> m = Inl e \<or> (\<exists>x. m = Inr x \<and> f x = Inl e)"
  by (cases m) auto

lemma py_div_not_KeyError: "py_div a b \<noteq> Inl KeyError"
  by (simp add: py_div_def)

lemma fator_atrito_not_KeyError: "fator_atrito re eps d \<noteq> Inl KeyError"
  by (auto simp: fator_atrito_def py_bind_eq_Inl py_div_def py_log10_def Let_def split: if_splits)

lemma perda_carga_KeyError:
  "calcular_perda_carga q d l eps k fl = Inl KeyError \<longleftrightarrow> 0 < d \<and> FLUIDOS fl = None"
  by (auto simp: calcular_perda_carga_def Let_def py_bind_eq_Inl py_div_not_KeyError
        fator_atrito_not_KeyError split: option.splits if_splits)

lemma analise_KeyError:
  "calcular_analise_energetica q h eb em horas c fl = Inl KeyError \<longleftrightarrow> FLUIDOS fl = None"
proof (cases "FLUIDOS fl")
  case None
  then show ?thesis by (simp add: analise_None)
next
  case (Some p)
  then show ?thesis by (simp add: analise_Some [OF Some] Let_def)
qed

text \<open>
  Claim C10, amended: the precondition on the fluid name, without the comparison with the
  other degenerate inputs. The fluid table has exactly four names. With any other name
  calcular\_perda\_carga (for a positive diameter) and calcular\_analise\_energetica fail
  with a key error: no sentinel result is returned. With a name of the table neither fails
  with a key error.
\<close>

theorem fluido_fora_da_tabela:
  "dom FLUIDOS = {agua, etanol, glicerina, oleo_leve}
   \<and> card (dom FLUIDOS) = 4
   \<and> (fl \<notin> dom FLUIDOS \<longrightarrow> 0 < d \<longrightarrow> calcular_perda_carga q d l eps k fl = Inl KeyError)
   \<and> (fl \<notin> dom FLUIDOS \<longrightarrow> calcular_analise_energetica q h eb em horas c fl = Inl KeyError)
   \<and> (fl \<in> dom FLUIDOS \<longrightarrow> calcular_perda_carga q d l eps k fl \<noteq> Inl KeyError
         \<and> calcular_analise_energetica q h eb em horas c fl \<noteq> Inl KeyError)"
proof -
  have "card {agua, etanol, glicerina, oleo_leve} = 4"
    by (simp add: agua_def etanol_def glicerina_def oleo_leve_def)
  then show ?thesis
    unfolding perda_carga_KeyError analise_KeyError
    by (auto simp: dom_FLUIDOS [symmetric] domIff)
qed

theorem fluido_fora_da_tabela_witness:
  "calcular_perda_carga 50 100 100 0.15 5 ''Mercury'' = Inl KeyError
   \<and> calcular_analise_energetica 50 (Fin 30) 0.7 0.9 8 0.75 ''Mercury'' = Inl KeyError
   \<and> calcular_perda_carga 50 100 100 0.15 5 agua \<noteq> Inl KeyError
   \<and> calcular_analise_energetica 50 (Fin 30) 0.7 0.9 8 0.75 agua \<noteq> Inl KeyError"
  using fluido_fora_da_tabela [of "''Mercury''" 100 50 100 "0.15" 5 "Fin 30" "0.7" "0.9" 8 "0.75"]
        fluido_fora_da_tabela [of agua 100 50 100 "0.15" 5 "Fin 30" "0.7" "0.9" 8 "0.75"]
  by (simp add: agua_def etanol_def glicerina_def oleo_leve_def)


section \<open>The sweep over diameters\<close>

lemma liga_exclusivo:
  "liga params_perda_carga ''diametro_mm'' kw \<Longrightarrow> \<not> liga params_analise_energetica ''h_man'' kw"
proof
  assume a: "liga params_perda_carga ''diametro_mm'' kw"
    and b: "liga params_analise_energetica ''h_man'' kw"
  from a have "''comprimento_m'' \<in> set (''diametro_mm'' # map fst kw)"
    unfolding liga_def params_perda_carga_def by simp
  then have "''comprimento_m'' \<in> set (''h_man'' # map fst kw)" by simp
  with b have "''comprimento_m'' \<in> set params_analise_energetica"
    unfolding liga_def by blast
  then show False by (simp add: params_analise_energetica_def)
qed

lemma custos_anuais_Cons_falha: "\<exists>e. custos_anuais h kw (d # ds) = Inl e"
proof (cases "liga params_perda_carga ''diametro_mm'' kw")
  case False
  then show ?thesis by (simp add: chamar_perda_carga_def)
next
  case True
  then have an: "chamar_analise_energetica hm kw = Inl TypeError" for hm
    using liga_exclusivo by (simp add: chamar_analise_energetica_def)
  show ?thesis
    by (cases "chamar_perda_carga d kw") (simp_all add: an Let_def)
qed

lemma linspace_20: "linspace a b 20 = a # map (\<lambda>i. a + real i * ((b - a) / 19)) [1..<20]"
  by (simp add: linspace_def upt_rec [of 0] del: upt.simps)

lemma liga_params_gerais:
  "\<not> liga params_perda_carga ''diametro_mm'' (params_gerais vazao cmp rug k fluido rb rm horas tarifa)"
proof
  assume "liga params_perda_carga ''diametro_mm'' (params_gerais vazao cmp rug k fluido rb rm horas tarifa)"
  then have "set (''diametro_mm'' # map fst (params_gerais vazao cmp rug k fluido rb rm horas tarifa))
      = set params_perda_carga"
    by (simp add: liga_def)
  moreover have "''eficiencia_bomba''
      \<in> set (''diametro_mm'' # map fst (params_gerais vazao cmp rug k fluido rb rm horas tarifa))"
    by (simp add: params_gerais_def)
  ultimately have "''eficiencia_bomba'' \<in> set params_perda_carga" by blast
  then show False by (simp add: params_perda_carga_def)
qed

text \<open>
  Claim C5, which says that the sweep returns 20 pairs of a diameter and an annual cost, in
  ascending order of diameter. The code never returns them: whatever the base diameter, the
  geometric head and the keyword dictionary, gerar\_grafico\_diametro\_custo ends in an
  exception, because no dictionary fits the parameters of both calculations. With the
  dictionary that the script passes, the exception is the TypeError of the first call.
\<close>

theorem grafico_sempre_falha:
  "(\<exists>e. gerar_grafico_diametro_custo base h kw = Inl e)
   \<and> gerar_grafico_diametro_custo diam_tub h_geometrica
        (params_gerais vazao cmp rug k fluido rb rm horas tarifa) = Inl TypeError"
proof
  obtain e where "custos_anuais h kw (linspace (max 25 (base * 0.5)) (base * 2) 20) = Inl e"
    unfolding linspace_20 using custos_anuais_Cons_falha by blast
  then show "\<exists>e. gerar_grafico_diametro_custo base h kw = Inl e"
    by (simp add: gerar_grafico_diametro_custo_def Let_def)
next
  show "gerar_grafico_diametro_custo diam_tub h_geometrica
        (params_gerais vazao cmp rug k fluido rb rm horas tarifa) = Inl TypeError"
    unfolding gerar_grafico_diametro_custo_def Let_def linspace_20
    by (simp add: chamar_perda_carga_def liga_params_gerais)
qed

text \<open>
  The diameters themselves are 20 evenly spaced samples. They ascend when the upper end
  \<open>2 * base\<close> is above the lower end \<open>max 25 (0.5 * base)\<close>, that is for a base above
  12.5; for a smaller base they descend, as from 25 to 10 for the base 5.
\<close>

lemma length_linspace: "length (linspace a b n) = n"
  by (simp add: linspace_def)

lemma linspace_nth: "i < n \<Longrightarrow> linspace a b n ! i = a + real i * ((b - a) / real (n - 1))"
  by (simp add: linspace_def)

lemma linspace_ascending:
  "a < b \<Longrightarrow> sorted_wrt (<) (linspace a b 20)"
  unfolding sorted_wrt_iff_nth_less length_linspace
  by (auto simp: linspace_nth intro!: mult_strict_right_mono)

lemma linspace_descending:
  "b < a \<Longrightarrow> sorted_wrt (>) (linspace a b 20)"
  unfolding sorted_wrt_iff_nth_less length_linspace
  by (auto simp: linspace_nth intro!: mult_strict_right_mono_neg)

lemma diametros_base_5:
  "linspace (max 25 (5 * 0.5)) (5 * 2) 20 ! 0 = 25 \<and> linspace (max 25 (5 * 0.5)) (5 * 2) 20 ! 19 = 10"
  by (simp add: linspace_nth)



section \<open>Bounds on \<open>pi\<close>, powers and logarithms\<close>

lemma cos_poly_bounds:
  assumes "0 < (x::real)"
  shows "cos x \<le> 1 - x^2 / 2 + x^4 / 24 - x^6 / 720 + x^8 / 40320"
    and "1 - x^2 / 2 + x^4 / 24 - x^6 / 720 - x^8 / 40320 \<le> cos x"
proof -
  obtain t where t: "cos x = (\<Sum>m<8. cos_coeff m * x ^ m) + (cos (t + 1/2 * real (8::nat) * pi) / fact 8) * x ^ 8"
    using Maclaurin_cos_expansion2 [OF assms, of 8] by auto
  have set8: "{..<8::nat} = {0, 1, 2, 3, 4, 5, 6, 7}" by auto
  have s: "(\<Sum>m<8. cos_coeff m * x ^ m) = 1 - x^2 / 2 + x^4 / 24 - x^6 / 720"
    unfolding set8 by (simp add: cos_coeff_def fact_numeral)
  have f: "fact 8 = (40320::real)" by (simp add: eval_nat_numeral)
  have c: "\<bar>cos (t + 1/2 * real (8::nat) * pi)\<bar> \<le> 1" by (rule abs_cos_le_one)
  have x8: "0 \<le> x^8" by simp
  have "\<bar>cos (t + 1/2 * real (8::nat) * pi)\<bar> * x^8 \<le> 1 * x^8"
    using c x8 by (rule mult_right_mono)
  then have "\<bar>(cos (t + 1/2 * real (8::nat) * pi) / fact 8) * x ^ 8\<bar> \<le> x^8 / 40320"
    unfolding f abs_mult abs_divide by simp
  then show "cos x \<le> 1 - x^2 / 2 + x^4 / 24 - x^6 / 720 + x^8 / 40320"
    and "1 - x^2 / 2 + x^4 / 24 - x^6 / 720 - x^8 / 40320 \<le> cos x"
    unfolding t s by linarith+
qed

lemma pi_less_3147: "pi < 3.147"
proof (rule ccontr)
  assume "\<not> pi < 3.147"
  then have "(3147 / 2000 :: real) \<le> pi / 2" by simp
  then have "0 \<le> cos (3147 / 2000 :: real)"
    by (intro cos_ge_zero) (auto intro: order_trans [of _ 0])
  moreover have "cos (3147 / 2000 :: real) < 0"
    using cos_poly_bounds(1) [of "3147 / 2000"] by (simp add: power_divide)
  ultimately show False by simp
qed

lemma pi_greater_313: "3.13 < pi"
proof (rule ccontr)
  assume "\<not> 3.13 < pi"
  then have le: "pi / 2 \<le> (313 / 200 :: real)" by simp
  have "(313 / 200 :: real) \<le> 2" by simp
  also have "2 \<le> pi" by (rule pi_ge_two)
  finally have "cos (313 / 200 :: real) \<le> cos (pi / 2)"
    using le by (intro cos_monotone_0_pi_le) auto
  moreover have "0 < cos (313 / 200 :: real)"
    using cos_poly_bounds(2) [of "313 / 200"] by (simp add: power_divide)
  ultimately show False by simp
qed

lemma powr09_lower: "4000 \<le> x \<Longrightarrow> 1000 \<le> x powr 0.9" for x :: real
proof -
  assume x: "4000 \<le> x"
  have "(1000::real) \<le> 4000 powr 0.9"
  proof (rule ccontr)
    assume "\<not> (1000::real) \<le> 4000 powr 0.9"
    then have "(4000 powr 0.9) powr 10 < (1000::real) powr 10"
      by (intro powr_less_mono2) auto
    then have "(4000::real) powr 9 < 1000 powr 10"
      by (simp add: powr_powr)
    then show False by simp
  qed
  also have "4000 powr 0.9 \<le> x powr 0.9"
    using x by (intro powr_mono2) auto
  finally show ?thesis .
qed




section \<open>The head losses by regime\<close>

lemma log10_eq_0_iff: "0 < t \<Longrightarrow> log 10 t = 0 \<longleftrightarrow> t = 1"
  by (simp add: log_def)

lemma fator_atrito_turbulento:
  assumes "4000 < re" "0 < dm"
  shows "fator_atrito re epsm dm =
    (if epsm / (3.7 * dm) + 5.74 / (re powr 0.9) > 0 then
       (if epsm / (3.7 * dm) + 5.74 / (re powr 0.9) = 1 then Inl ZeroDivisionError
        else Inr (0.25 / (log 10 (epsm / (3.7 * dm) + 5.74 / (re powr 0.9))) ^ 2))
     else Inr 0)"
proof -
  have "re powr 0.9 \<noteq> 0" using assms by simp
  moreover have "3.7 * dm \<noteq> 0" using assms by simp
  ultimately show ?thesis
    using assms
    by (simp add: fator_atrito_def py_div_def py_log10_def Let_def log10_eq_0_iff
        del: powr_eq_0_iff)
qed

lemma fator_atrito_laminar:
  "0 < re \<Longrightarrow> re \<le> 4000 \<Longrightarrow> fator_atrito re epsm dm = Inr (64 / re)"
  by (simp add: fator_atrito_def py_div_def)

lemma fator_atrito_parado:
  "re \<le> 0 \<Longrightarrow> fator_atrito re epsm dm = Inr 0"
  by (simp add: fator_atrito_def)

lemma perda_carga_pos:
  assumes "0 < d" "FLUIDOS fl = Some p"
  shows "calcular_perda_carga q d L eps K fl =
     py_bind (fator_atrito (reynolds_de q d (nu p)) (eps / 1000) (d / 1000)) (\<lambda>f.
       Inr \<lparr>principal = Fin (f * (L / (d / 1000)) * ((veloc_de q d)\<^sup>2 / (2 * 9.81))),
            localizada = Fin (K * ((veloc_de q d)\<^sup>2 / (2 * 9.81))),
            velocidade = Fin (veloc_de q d)\<rparr>)"
proof -
  have a: "py_div (q / 3600) (pi * (d / 1000)\<^sup>2 / 4) = Inr (veloc_de q d)"
    using assms by (simp add: py_div_def veloc_de_def)
  have n: "0 < nu p" using assms FLUIDOS_nu_pos by blast
  then have r: "py_div (veloc_de q d * (d / 1000)) (nu p) = Inr (reynolds_de q d (nu p))"
    by (simp add: py_div_def reynolds_de_def)
  have dm: "py_div L (d / 1000) = Inr (L / (d / 1000))"
    using assms by (simp add: py_div_def)
  have nd: "\<not> d \<le> 0" using assms by simp
  show ?thesis
    unfolding calcular_perda_carga_def Let_def
    by (simp only: nd assms(2) a r dm n py_bind_Inr option.case if_True if_False)
qed


lemma termo_log_de_eq:
  "eps / 1000 / (3.7 * (d / 1000)) + 5.74 / (reynolds_de q d visc powr 0.9)
     = termo_log_de q d eps visc"
  by (simp add: termo_log_de_def)

lemma perda_carga_turbulento:
  assumes "0 < d" "FLUIDOS fl = Some p" "4000 < reynolds_de q d (nu p)"
  shows "calcular_perda_carga q d L eps K fl =
    (if 0 < termo_log_de q d eps (nu p) then
       if termo_log_de q d eps (nu p) = 1 then Inl ZeroDivisionError
       else Inr \<lparr>principal = Fin (0.25 / (log 10 (termo_log_de q d eps (nu p)))\<^sup>2
                       * (L / (d / 1000)) * ((veloc_de q d)\<^sup>2 / (2 * 9.81))),
                 localizada = Fin (K * ((veloc_de q d)\<^sup>2 / (2 * 9.81))),
                 velocidade = Fin (veloc_de q d)\<rparr>
     else Inr \<lparr>principal = Fin (0 * (L / (d / 1000)) * ((veloc_de q d)\<^sup>2 / (2 * 9.81))),
               localizada = Fin (K * ((veloc_de q d)\<^sup>2 / (2 * 9.81))),
               velocidade = Fin (veloc_de q d)\<rparr>)"
proof -
  have dm: "0 < d / 1000" using assms(1) by simp
  have fa: "fator_atrito (reynolds_de q d (nu p)) (eps / 1000) (d / 1000) =
    (if termo_log_de q d eps (nu p) > 0 then
       (if termo_log_de q d eps (nu p) = 1 then Inl ZeroDivisionError
        else Inr (0.25 / (log 10 (termo_log_de q d eps (nu p))) ^ 2))
     else Inr 0)"
    unfolding fator_atrito_turbulento [OF assms(3) dm] termo_log_de_eq ..
  show ?thesis
  proof (cases "0 < termo_log_de q d eps (nu p)")
    case False
    then show ?thesis
      unfolding perda_carga_pos [OF assms(1,2)] fa by (simp only: if_False py_bind_Inr)
  next
    case True
    show ?thesis
    proof (cases "termo_log_de q d eps (nu p) = 1")
      case eq: True
      show ?thesis
        unfolding perda_carga_pos [OF assms(1,2)] fa
        using True by (simp only: eq if_True refl py_bind_Inl)
    next
      case neq: False
      show ?thesis
        unfolding perda_carga_pos [OF assms(1,2)] fa
        by (simp only: True neq if_True if_False py_bind_Inr)
    qed
  qed
qed

lemma perda_carga_laminar:
  assumes "0 < d" "FLUIDOS fl = Some p" "0 < reynolds_de q d (nu p)"
    "reynolds_de q d (nu p) \<le> 4000"
  shows "calcular_perda_carga q d L eps K fl =
     Inr \<lparr>principal = Fin (64 / reynolds_de q d (nu p)
                       * (L / (d / 1000)) * ((veloc_de q d)\<^sup>2 / (2 * 9.81))),
           localizada = Fin (K * ((veloc_de q d)\<^sup>2 / (2 * 9.81))),
           velocidade = Fin (veloc_de q d)\<rparr>"
  unfolding perda_carga_pos [OF assms(1,2)] fator_atrito_laminar [OF assms(3,4)]
  by simp

lemma perda_carga_parado:
  assumes "0 < d" "FLUIDOS fl = Some p" "reynolds_de q d (nu p) \<le> 0"
  shows "calcular_perda_carga q d L eps K fl =
     Inr \<lparr>principal = Fin (0 * (L / (d / 1000)) * ((veloc_de q d)\<^sup>2 / (2 * 9.81))),
           localizada = Fin (K * ((veloc_de q d)\<^sup>2 / (2 * 9.81))),
           velocidade = Fin (veloc_de q d)\<rparr>"
  unfolding perda_carga_pos [OF assms(1,2)] fator_atrito_parado [OF assms(3)]
  by simp


lemma analise_positiva:
  assumes "FLUIDOS fl = Some p" "0 < q" "0 < h" "0 < eb" "0 < em" "0 < horas" "0 < c"
  shows "\<exists>e pk ca. calcular_analise_energetica q (Fin h) eb em horas c fl = Inr e
     \<and> potencia_eletrica_kW e = Fin pk \<and> 0 < pk \<and> custo_anual e = Fin ca \<and> 0 < ca"
proof -
  have "0 < rho p" using assms(1) by (rule FLUIDOS_rho_pos)
  then have pk: "0 < q / 3600 * rho p * 9.81 * h / eb / em / 1000"
    using assms by (intro divide_pos_pos mult_pos_pos) simp_all
  then have ca: "0 < q / 3600 * rho p * 9.81 * h / eb / em / 1000 * horas * 365 * c"
    using assms by (intro mult_pos_pos) simp_all
  have "calcular_analise_energetica q (Fin h) eb em horas c fl =
      Inr \<lparr>potencia_eletrica_kW = Fin (q / 3600 * rho p * 9.81 * h / eb / em / 1000),
             consumo_mensal_kWh = Fin (q / 3600 * rho p * 9.81 * h / eb / em / 1000 * horas * 30),
             custo_mensal = Fin (q / 3600 * rho p * 9.81 * h / eb / em / 1000 * horas * 30 * c),
             custo_anual = Fin (q / 3600 * rho p * 9.81 * h / eb / em / 1000 * horas * 365 * c)\<rparr>"
    using assms by (simp add: analise_Some [OF assms(1)] Let_def)
  with pk ca show ?thesis by force
qed

section \<open>The scenario of water in a 100 mm pipe\<close>

lemma veloc_agua_100: "veloc_de 50 100 = 50 / (9 * pi)"
  by (simp add: veloc_de_def power2_eq_square)

lemma veloc_agua_100_bounds: "1.765 < veloc_de 50 100" "veloc_de 50 100 < 1.775"
proof -
  have "1.765 * (9 * pi) < 50" using pi_less_3147 by simp
  then show "1.765 < veloc_de 50 100"
    unfolding veloc_agua_100 by (simp add: pos_less_divide_eq)
  have "50 < 1.775 * (9 * pi)" using pi_greater_313 by simp
  then show "veloc_de 50 100 < 1.775"
    unfolding veloc_agua_100 by (simp add: pos_divide_less_eq)
qed

lemma reynolds_agua_100: "99000 < reynolds_de 50 100 (1.004 / 10 ^ 6)"
proof -
  have "reynolds_de 50 100 (1.004 / 10 ^ 6) = veloc_de 50 100 * (100000 / 1.004)"
    by (simp add: reynolds_de_def)
  moreover have "1 * (100000 / 1.004) < veloc_de 50 100 * (100000 / 1.004 :: real)"
    using veloc_agua_100_bounds(1) by (intro mult_strict_right_mono) auto
  ultimately show ?thesis by simp
qed

lemma termo_log_bounds:
  assumes "4000 \<le> reynolds_de q d visc" "0 < d" "0 \<le> eps" "eps \<le> 3.6 * d"
  shows "0 < termo_log_de q d eps visc" "termo_log_de q d eps visc < 1"
proof -
  define x where "x = reynolds_de q d visc powr 0.9"
  define y where "y = 5.74 / x"
  define w where "w = eps / 1000 / (3.7 * (d / 1000))"
  have x: "1000 \<le> x" unfolding x_def using assms(1) by (rule powr09_lower)
  have t: "termo_log_de q d eps visc = w + y"
    by (simp add: termo_log_de_def x_def w_def y_def)
  have w: "w = eps / (3.7 * d)" using assms(2) by (simp add: w_def)
  have w0: "0 \<le> w" unfolding w using assms by simp
  have w1: "w \<le> 36 / 37" unfolding w using assms by (simp add: pos_divide_le_eq)
  have "y \<le> 5.74 / 1000" unfolding y_def using x by (intro divide_left_mono) auto
  then have y1: "y \<le> 1 / 100" by simp
  have y0: "0 < y" unfolding y_def using x by simp
  show "0 < termo_log_de q d eps visc" "termo_log_de q d eps visc < 1"
    unfolding t using w0 w1 y0 y1 by simp_all
qed

text \<open>
  Claim C9. For a flow of 50 m3/h of water in a pipe of 100 mm, 100 m long, with roughness
  0.15 mm and K = 5, calcular\_perda\_carga returns a velocity within 0.005 of 1.77 m/s; the
  Reynolds number is above 4000, so that the major loss is the one of the Swamee-Jain
  factor; the major and the minor loss are finite and strictly positive. For any geometric
  head that is not negative, calcular\_analise\_energetica on the sum of that head and the two
  losses, with efficiencies 0.70 and 0.90, 8 hours a day and a tariff of 0.75, returns a
  finite, strictly positive electrical power and annual cost.
\<close>

theorem cenario_agua_100mm:
  assumes "0 \<le> h_geometrica"
  shows "\<exists>r e v mj mn pk ca.
      calcular_perda_carga 50 100 100 0.15 5 agua = Inr r
    \<and> velocidade r = Fin v \<and> \<bar>v - 1.77\<bar> < 0.005
    \<and> 4000 < reynolds_de 50 100 (1.004 / 10 ^ 6)
    \<and> principal r = Fin mj \<and> 0 < mj
    \<and> mj = 0.25 / (log 10 (termo_log_de 50 100 0.15 (1.004 / 10 ^ 6)))\<^sup>2
             * (100 / (100 / 1000)) * (v\<^sup>2 / (2 * 9.81))
    \<and> localizada r = Fin mn \<and> 0 < mn
    \<and> calcular_analise_energetica 50
          (fadd (fadd (Fin h_geometrica) (principal r)) (localizada r)) 0.7 0.9 8 0.75 agua
        = Inr e
    \<and> potencia_eletrica_kW e = Fin pk \<and> 0 < pk
    \<and> custo_anual e = Fin ca \<and> 0 < ca"
proof -
  define v where "v = veloc_de 50 100"
  define f where "f = 0.25 / (log 10 (termo_log_de 50 100 0.15 (1.004 / 10 ^ 6)))\<^sup>2"
  define mj where "mj = f * (100 / (100 / 1000)) * (v\<^sup>2 / (2 * 9.81))"
  define mn where "mn = 5 * (v\<^sup>2 / (2 * 9.81))"
  define r where "r = \<lparr>principal = Fin mj, localizada = Fin mn, velocidade = Fin v\<rparr>"
  have re: "4000 < reynolds_de 50 100 (1.004 / 10 ^ 6)" using reynolds_agua_100 by simp
  have t: "0 < termo_log_de 50 100 0.15 (1.004 / 10 ^ 6)"
          "termo_log_de 50 100 0.15 (1.004 / 10 ^ 6) < 1"
    using termo_log_bounds [of 50 100 "1.004 / 10 ^ 6" "0.15"] re by simp_all
  have pc: "calcular_perda_carga 50 100 100 0.15 5 agua = Inr r"
    unfolding r_def mj_def mn_def f_def v_def
    using perda_carga_turbulento [OF _ FLUIDOS_agua, of 100 50 100 "0.15" 5] re t by simp
  have v: "0 < v" "\<bar>v - 1.77\<bar> < 0.005"
    unfolding abs_less_iff v_def using veloc_agua_100_bounds by auto
  have "log 10 (termo_log_de 50 100 0.15 (1.004 / 10 ^ 6)) \<noteq> 0"
    using t by (simp add: log10_eq_0_iff)
  then have f: "0 < f" unfolding f_def by simp
  have mj: "0 < mj" unfolding mj_def using f v(1) by simp
  have mn: "0 < mn" unfolding mn_def using v(1) by simp
  have h: "0 < h_geometrica + mj + mn" using assms mj mn by linarith
  obtain e pk ca where e:
    "calcular_analise_energetica 50 (Fin (h_geometrica + mj + mn)) 0.7 0.9 8 0.75 agua = Inr e"
    "potencia_eletrica_kW e = Fin pk" "0 < pk" "custo_anual e = Fin ca" "0 < ca"
    using analise_positiva [OF FLUIDOS_agua _ h, of 50 "0.7" "0.9" 8 "0.75"] by auto
  have hm: "fadd (fadd (Fin h_geometrica) (principal r)) (localizada r)
      = Fin (h_geometrica + mj + mn)"
    by (simp add: r_def)
  have mjv: "mj = 0.25 / (log 10 (termo_log_de 50 100 0.15 (1.004 / 10 ^ 6)))\<^sup>2
             * (100 / (100 / 1000)) * (v\<^sup>2 / (2 * 9.81))"
    unfolding mj_def f_def ..
  have "velocidade r = Fin v" "principal r = Fin mj" "localizada r = Fin mn"
    by (simp_all add: r_def)
  note sel = this
  show ?thesis
  proof (intro exI conjI)
    show "calcular_perda_carga 50 100 100 0.15 5 agua = Inr r" by (rule pc)
    show "velocidade r = Fin v" by (rule sel)
    show "\<bar>v - 1.77\<bar> < 0.005" by (rule v)
    show "4000 < reynolds_de 50 100 (1.004 / 10 ^ 6)" by (rule re)
    show "principal r = Fin mj" by (rule sel)
    show "0 < mj" by (rule mj)
    show "mj = 0.25 / (log 10 (termo_log_de 50 100 0.15 (1.004 / 10 ^ 6)))\<^sup>2
             * (100 / (100 / 1000)) * (v\<^sup>2 / (2 * 9.81))" by (rule mjv)
    show "localizada r = Fin mn" by (rule sel)
    show "0 < mn" by (rule mn)
    show "calcular_analise_energetica 50
          (fadd (fadd (Fin h_geometrica) (principal r)) (localizada r)) 0.7 0.9 8 0.75 agua
        = Inr e" unfolding hm by (rule e)
    show "potencia_eletrica_kW e = Fin pk" by (rule e)
    show "0 < pk" by (rule e)
    show "custo_anual e = Fin ca" by (rule e)
    show "0 < ca" by (rule e)
  qed
qed

theorem cenario_agua_100mm_witness:
  "(0::real) \<le> 15 \<and> (\<exists>r e v mj mn pk ca.
      calcular_perda_carga 50 100 100 0.15 5 agua = Inr r
    \<and> velocidade r = Fin v \<and> \<bar>v - 1.77\<bar> < 0.005
    \<and> 4000 < reynolds_de 50 100 (1.004 / 10 ^ 6)
    \<and> principal r = Fin mj \<and> 0 < mj
    \<and> mj = 0.25 / (log 10 (termo_log_de 50 100 0.15 (1.004 / 10 ^ 6)))\<^sup>2
             * (100 / (100 / 1000)) * (v\<^sup>2 / (2 * 9.81))
    \<and> localizada r = Fin mn \<and> 0 < mn
    \<and> calcular_analise_energetica 50
          (fadd (fadd (Fin 15) (principal r)) (localizada r)) 0.7 0.9 8 0.75 agua
        = Inr e
    \<and> potencia_eletrica_kW e = Fin pk \<and> 0 < pk
    \<and> custo_anual e = Fin ca \<and> 0 < ca)"
proof (rule conjI)
  show "(0::real) \<le> 15" by simp
  then show "\<exists>r e v mj mn pk ca.
      calcular_perda_carga 50 100 100 0.15 5 agua = Inr r
    \<and> velocidade r = Fin v \<and> \<bar>v - 1.77\<bar> < 0.005
    \<and> 4000 < reynolds_de 50 100 (1.004 / 10 ^ 6)
    \<and> principal r = Fin mj \<and> 0 < mj
    \<and> mj = 0.25 / (log 10 (termo_log_de 50 100 0.15 (1.004 / 10 ^ 6)))\<^sup>2
             * (100 / (100 / 1000)) * (v\<^sup>2 / (2 * 9.81))
    \<and> localizada r = Fin mn \<and> 0 < mn
    \<and> calcular_analise_energetica 50
          (fadd (fadd (Fin 15) (principal r)) (localizada r)) 0.7 0.9 8 0.75 agua
        = Inr e
    \<and> potencia_eletrica_kW e = Fin pk \<and> 0 < pk
    \<and> custo_anual e = Fin ca \<and> 0 < ca"
    by (rule cenario_agua_100mm)
qed


section \<open>The friction factor by regime\<close>

text \<open>
  In exact arithmetic and for a positive diameter the function fails in two ways only: on
  the lookup of a fluid that is not in the table, and on the division where the argument
  of the logarithm is 1. Every other degenerate input gets a value.
\<close>

lemma perda_carga_falhas:
  assumes "0 < d"
  shows "calcular_perda_carga q d L eps K fl = Inl e \<longleftrightarrow>
      (FLUIDOS fl = None \<and> e = KeyError)
    \<or> (\<exists>p. FLUIDOS fl = Some p \<and> 4000 < reynolds_de q d (nu p)
            \<and> termo_log_de q d eps (nu p) = 1 \<and> e = ZeroDivisionError)"
proof (cases "FLUIDOS fl")
  case None
  then show ?thesis using assms by (auto simp: calcular_perda_carga_def)
next
  case (Some p)
  consider "4000 < reynolds_de q d (nu p)"
    | "0 < reynolds_de q d (nu p)" "reynolds_de q d (nu p) \<le> 4000"
    | "reynolds_de q d (nu p) \<le> 0"
    by linarith
  then show ?thesis
  proof cases
    case 1
    show ?thesis
      unfolding perda_carga_turbulento [OF assms Some 1] using Some 1 by auto
  next
    case 2
    then show ?thesis
      unfolding perda_carga_laminar [OF assms Some 2] using Some by auto
  next
    case 3
    then show ?thesis
      unfolding perda_carga_parado [OF assms Some 3] using Some by auto
  qed
qed

lemma termo_log_um:
  assumes "0 < d" "4000 < reynolds_de q d visc"
  shows "termo_log_de q d (3.7 * d * (1 - 5.74 / (reynolds_de q d visc powr 0.9))) visc = 1"
proof -
  define y where "y = 5.74 / (reynolds_de q d visc powr 0.9)"
  have "3.7 * d * (1 - y) / 1000 / (3.7 * (d / 1000)) = 1 - y"
    using assms(1) by simp
  then show ?thesis
    unfolding termo_log_de_def y_def [symmetric] by simp
qed

text \<open>
  Claim C4, which says that no input makes the two calculations raise and that the quotient
  0.25 / (log10 termo\_log)^2 never divides by zero. The guard of the code is
  \<open>termo_log > 0\<close>, and the logarithm is zero where \<open>termo_log\<close> is 1: for every
  positive diameter and every flow and fluid that give a Reynolds number above 4000, the
  roughness 3.7 d (1 - 5.74 / Re^0.9) makes calcular\_perda\_carga raise ZeroDivisionError.
\<close>

theorem perda_carga_divisao_por_zero:
  assumes "0 < d" "FLUIDOS fl = Some p" "4000 < reynolds_de q d (nu p)"
  shows "calcular_perda_carga q d L
           (3.7 * d * (1 - 5.74 / (reynolds_de q d (nu p) powr 0.9))) K fl
         = Inl ZeroDivisionError"
  unfolding perda_carga_turbulento [OF assms] termo_log_um [OF assms(1,3)]
  by simp

theorem perda_carga_divisao_por_zero_witness:
  "calcular_perda_carga 50 100 100
      (3.7 * 100 * (1 - 5.74 / (reynolds_de 50 100 (1.004 / 10 ^ 6) powr 0.9))) 5 agua
    = Inl ZeroDivisionError"
  using perda_carga_divisao_por_zero [OF _ FLUIDOS_agua, of 100 50 100 5] reynolds_agua_100
  by simp





section \<open>Head losses and cost as the diameter varies\<close>







lemma termo_log_de_split:
  "0 < d \<Longrightarrow> termo_log_de q d eps visc
     = eps / (3.7 * d) + 5.74 / (reynolds_de q d visc powr 0.9)"
  by (simp add: termo_log_de_def)

lemma termo_re_bounds:
  fixes re :: real
  assumes "4000 \<le> re"
  shows "0 < 5.74 / (re powr 0.9)" "5.74 / (re powr 0.9) \<le> 0.00574"
proof -
  have x: "1000 \<le> re powr 0.9" using assms by (rule powr09_lower)
  then have "0 < re powr 0.9" by linarith
  then show "0 < 5.74 / (re powr 0.9)" by (intro divide_pos_pos) simp_all
  have "5.74 / (re powr 0.9) \<le> 5.74 / 1000" using x by (intro divide_left_mono) auto
  then show "5.74 / (re powr 0.9) \<le> 0.00574" by simp
qed


section \<open>The cost does not grow with the diameter\<close>












section \<open>The two embeddings agree inside the range\<close>

lemma UNF_pos: "0 < UNF"
  by (simp add: UNF_def)

lemma UNF_less_OVF: "UNF < OVF"
proof -
  have "UNF \<le> 1" by (simp add: UNF_def)
  moreover have "(1::real) < 2 ^ 1024 - 2 ^ 970" by simp
  ultimately show ?thesis by (simp add: OVF_def)
qed

lemma OVF_pos: "0 < OVF"
  using UNF_pos UNF_less_OVF by linarith

lemma arred_na_faixa: "na_faixa x \<Longrightarrow> arred x = Fin x"
  using UNF_pos OVF_pos by (auto simp add: na_faixa_def arred_def)

lemma rmul_na_faixa: "na_faixa (a * b) \<Longrightarrow> rmul (Fin a) (Fin b) = Fin (a * b)"
  by (simp add: arred_na_faixa)

lemma radd_na_faixa: "na_faixa (a + b) \<Longrightarrow> radd (Fin a) (Fin b) = Fin (a + b)"
  by (simp add: arred_na_faixa)

lemma rdiv_na_faixa:
  "b \<noteq> 0 \<Longrightarrow> na_faixa (a / b) \<Longrightarrow> rdiv (Fin a) (Fin b) = Inr (Fin (a / b))"
  by (simp add: arred_na_faixa)

lemma na_faixa_nonneg_less: "na_faixa x \<Longrightarrow> 0 \<le> x \<Longrightarrow> x < OVF"
  using OVF_pos by (auto simp add: na_faixa_def)

lemma rpow2_na_faixa: "na_faixa (x ^ 2) \<Longrightarrow> rpow2 (Fin x) = Inr (Fin (x ^ 2))"
  using na_faixa_nonneg_less [of "x ^ 2"] by (simp add: arred_na_faixa)

lemma rpow09_na_faixa: "na_faixa (x powr 0.9) \<Longrightarrow> rpow09 (Fin x) = Inr (Fin (x powr 0.9))"
  using na_faixa_nonneg_less [of "x powr 0.9"] by (simp add: arred_na_faixa)

lemma rlog10_na_faixa:
  "0 < x \<Longrightarrow> na_faixa (log 10 x) \<Longrightarrow> rlog10 (Fin x) = Inr (Fin (log 10 x))"
  by (simp add: arred_na_faixa)




lemma fator_atrito_faixa_exato:
  assumes dm: "0 < dm"
    and f: "na_faixa (if 4000 < re then
                        (if 0 < epsm / (3.7 * dm) + 5.74 / (re powr 0.9)
                         then 0.25 / (log 10 (epsm / (3.7 * dm) + 5.74 / (re powr 0.9)))\<^sup>2
                         else 0)
                      else if 0 < re then 64 / re else 0)"
    and T: "4000 < re \<longrightarrow>
          list_all na_faixa
            [3.7 * dm, epsm / (3.7 * dm), re powr 0.9, 5.74 / (re powr 0.9),
             epsm / (3.7 * dm) + 5.74 / (re powr 0.9)]
          \<and> (0 < epsm / (3.7 * dm) + 5.74 / (re powr 0.9) \<longrightarrow>
               list_all na_faixa
                 [log 10 (epsm / (3.7 * dm) + 5.74 / (re powr 0.9)),
                  (log 10 (epsm / (3.7 * dm) + 5.74 / (re powr 0.9)))\<^sup>2])"
  shows "fator_atrito_faixa (Fin re) (Fin epsm) (Fin dm) =
    (if 4000 < re \<and> epsm / (3.7 * dm) + 5.74 / (re powr 0.9) = 1
     then Inl ZeroDivisionError
     else Inr (Fin (if 4000 < re then
                        (if 0 < epsm / (3.7 * dm) + 5.74 / (re powr 0.9)
                         then 0.25 / (log 10 (epsm / (3.7 * dm) + 5.74 / (re powr 0.9)))\<^sup>2
                         else 0)
                      else if 0 < re then 64 / re else 0)))"
proof -
  define t where "t = epsm / (3.7 * dm) + 5.74 / (re powr 0.9)"
  consider "4000 < re" | "0 < re" "re \<le> 4000" | "re \<le> 0" by linarith
  then show ?thesis
  proof cases
    case 1
    have a: "na_faixa (3.7 * dm)" "na_faixa (epsm / (3.7 * dm))" "na_faixa (re powr 0.9)"
      "na_faixa (5.74 / (re powr 0.9))" "na_faixa t"
      using T 1 unfolding t_def by simp_all
    have nz: "3.7 * dm \<noteq> 0" using dm by simp
    have pz: "re powr 0.9 \<noteq> 0" using 1 by simp
    have s1: "rmul (Fin 3.7) (Fin dm) = Fin (3.7 * dm)" using a(1) by (rule rmul_na_faixa)
    have s2: "rdiv (Fin epsm) (Fin (3.7 * dm)) = Inr (Fin (epsm / (3.7 * dm)))"
      using nz a(2) by (rule rdiv_na_faixa)
    have s3: "rpow09 (Fin re) = Inr (Fin (re powr 0.9))" using a(3) by (rule rpow09_na_faixa)
    have s4: "rdiv (Fin 5.74) (Fin (re powr 0.9)) = Inr (Fin (5.74 / (re powr 0.9)))"
      using pz a(4) by (rule rdiv_na_faixa)
    have s5: "radd (Fin (epsm / (3.7 * dm))) (Fin (5.74 / (re powr 0.9))) = Fin t"
      unfolding t_def using a(5) unfolding t_def by (rule radd_na_faixa)
    have g: "fgt (Fin re) (Fin 4000)" using 1 by simp
    have step: "fator_atrito_faixa (Fin re) (Fin epsm) (Fin dm) =
        (if fgt (Fin t) (Fin 0) then
          py_bind (rlog10 (Fin t)) (\<lambda>lg.
          py_bind (rpow2 lg) (\<lambda>lg2. rdiv (Fin 0.25) lg2))
        else Inr (Fin 0))"
      unfolding fator_atrito_faixa_def Let_def
      by (simp only: g if_True s1 s2 s3 s4 s5 py_bind_Inr)
    show ?thesis
    proof (cases "0 < t")
      case False
      then have "t \<noteq> 1" by simp
      with False 1 show ?thesis unfolding step t_def [symmetric] by simp
    next
      case True
      have b: "na_faixa (log 10 t)" "na_faixa ((log 10 t)\<^sup>2)"
        using T 1 True unfolding t_def by simp_all
      have s6: "rlog10 (Fin t) = Inr (Fin (log 10 t))" using True b(1) by (rule rlog10_na_faixa)
      have s7: "rpow2 (Fin (log 10 t)) = Inr (Fin ((log 10 t)\<^sup>2))"
        using b(2) by (rule rpow2_na_faixa)
      have gt: "fgt (Fin t) (Fin 0)" using True by simp
      have step2: "fator_atrito_faixa (Fin re) (Fin epsm) (Fin dm) =
          rdiv (Fin 0.25) (Fin ((log 10 t)\<^sup>2))"
        unfolding step by (simp only: gt if_True s6 s7 py_bind_Inr)
      show ?thesis
      proof (cases "t = 1")
        case eq: True
        then have "(log 10 t)\<^sup>2 = 0" by simp
        then have "rdiv (Fin 0.25) (Fin ((log 10 t)\<^sup>2)) = Inl ZeroDivisionError" by simp
        then show ?thesis unfolding step2 t_def [symmetric] using 1 eq by simp
      next
        case neq: False
        then have lz: "(log 10 t)\<^sup>2 \<noteq> 0" using True by (simp add: log10_eq_0_iff)
        have "na_faixa (0.25 / (log 10 t)\<^sup>2)"
          using f 1 True unfolding t_def [symmetric] by simp
        with lz have "rdiv (Fin 0.25) (Fin ((log 10 t)\<^sup>2)) = Inr (Fin (0.25 / (log 10 t)\<^sup>2))"
          by (rule rdiv_na_faixa)
        then show ?thesis unfolding step2 t_def [symmetric] using 1 True neq by simp
      qed
    qed
  next
    case 2
    have "na_faixa (64 / re)" using f 2 by simp
    moreover have "re \<noteq> 0" using 2 by simp
    ultimately have "rdiv (Fin 64) (Fin re) = Inr (Fin (64 / re))" by (intro rdiv_na_faixa)
    then show ?thesis using 2 by (simp add: fator_atrito_faixa_def)
  next
    case 3
    then show ?thesis by (simp add: fator_atrito_faixa_def)
  qed
qed



lemma perda_carga_faixa_passos:
  assumes d: "0 < d" and fl: "FLUIDOS fl = Some p"
    and A: "list_all na_faixa
       [q / 3600, d / 1000, eps / 1000, (d / 1000)\<^sup>2, pi * (d / 1000)\<^sup>2,
        pi * (d / 1000)\<^sup>2 / 4, veloc_de q d, veloc_de q d * (d / 1000),
        reynolds_de q d (nu p), fator_de q d eps (nu p)]"
    and B: "4000 < reynolds_de q d (nu p) \<longrightarrow>
          list_all na_faixa
            [3.7 * (d / 1000), eps / 1000 / (3.7 * (d / 1000)),
             reynolds_de q d (nu p) powr 0.9, 5.74 / (reynolds_de q d (nu p) powr 0.9),
             termo_log_de q d eps (nu p)]
          \<and> (0 < termo_log_de q d eps (nu p) \<longrightarrow>
               list_all na_faixa
                 [log 10 (termo_log_de q d eps (nu p)),
                  (log 10 (termo_log_de q d eps (nu p)))\<^sup>2])"
  shows "calcular_perda_carga_faixa q d L eps K fl =
      py_bind (if 4000 < reynolds_de q d (nu p) \<and> termo_log_de q d eps (nu p) = 1
               then Inl ZeroDivisionError else Inr (Fin (fator_de q d eps (nu p)))) (\<lambda>f.
        py_bind (rdiv (Fin L) (Fin (d / 1000))) (\<lambda>l_d.
            py_bind (carga_cinetica (Fin (veloc_de q d))) (\<lambda>carga.
            py_bind (carga_cinetica (Fin (veloc_de q d))) (\<lambda>carga'.
            Inr \<lparr>principal = rmul (rmul f l_d) carga,
                 localizada = rmul (Fin K) carga',
                 velocidade = Fin (veloc_de q d)\<rparr>))))"
proof -
  define dm where "dm = d / 1000"
  define epsm where "epsm = eps / 1000"
  define qs where "qs = q / 3600"
  define area where "area = pi * dm\<^sup>2 / 4"
  define v where "v = veloc_de q d"
  define re where "re = reynolds_de q d (nu p)"
  define t where "t = termo_log_de q d eps (nu p)"
  define f where "f = fator_de q d eps (nu p)"
  have dmp: "0 < dm" unfolding dm_def using d by simp
  have nup: "0 < nu p" using fl by (rule FLUIDOS_nu_pos)
  have v_eq: "v = qs / area" unfolding v_def veloc_de_def qs_def area_def dm_def ..
  have re_eq: "re = v * dm / nu p" unfolding re_def reynolds_de_def v_def dm_def ..
  have t_eq: "t = epsm / (3.7 * dm) + 5.74 / (re powr 0.9)"
    unfolding t_def termo_log_de_def epsm_def dm_def re_def ..
  have f_eq: "f = (if 4000 < re then
                        (if 0 < epsm / (3.7 * dm) + 5.74 / (re powr 0.9)
                         then 0.25 / (log 10 (epsm / (3.7 * dm) + 5.74 / (re powr 0.9)))\<^sup>2
                         else 0)
                      else if 0 < re then 64 / re else 0)"
    unfolding f_def fator_de_def re_def [symmetric] t_def [symmetric] t_eq [symmetric] ..
  from A have R1: "list_all na_faixa
       [qs, dm, epsm, dm\<^sup>2, pi * dm\<^sup>2, area, v, v * dm, re, f]"
    unfolding qs_def dm_def epsm_def area_def v_def re_def f_def .
  from B have R2: "4000 < re \<longrightarrow>
          list_all na_faixa
            [3.7 * dm, epsm / (3.7 * dm), re powr 0.9, 5.74 / (re powr 0.9), t]
          \<and> (0 < t \<longrightarrow> list_all na_faixa [log 10 t, (log 10 t)\<^sup>2])"
    unfolding dm_def epsm_def re_def t_def .
  have c: "na_faixa qs" "na_faixa dm" "na_faixa epsm" "na_faixa (dm\<^sup>2)" "na_faixa (pi * dm\<^sup>2)"
    "na_faixa area" "na_faixa v" "na_faixa (v * dm)" "na_faixa re" "na_faixa f"
    using R1 by simp_all
  have s1: "rdiv (Fin q) (Fin 3600) = Inr (Fin qs)"
    unfolding qs_def using c(1) unfolding qs_def by (intro rdiv_na_faixa) simp_all
  have s2: "rdiv (Fin d) (Fin 1000) = Inr (Fin dm)"
    unfolding dm_def using c(2) unfolding dm_def by (intro rdiv_na_faixa) simp_all
  have s3: "rdiv (Fin eps) (Fin 1000) = Inr (Fin epsm)"
    unfolding epsm_def using c(3) unfolding epsm_def by (intro rdiv_na_faixa) simp_all
  have s4: "rpow2 (Fin dm) = Inr (Fin (dm\<^sup>2))" using c(4) by (rule rpow2_na_faixa)
  have s5: "rmul (Fin pi) (Fin (dm\<^sup>2)) = Fin (pi * dm\<^sup>2)" using c(5) by (rule rmul_na_faixa)
  have s6: "rdiv (Fin (pi * dm\<^sup>2)) (Fin 4) = Inr (Fin area)"
    unfolding area_def using c(6) unfolding area_def by (intro rdiv_na_faixa) simp_all
  have az: "area \<noteq> 0" unfolding area_def using dmp by simp
  have s7: "rdiv (Fin qs) (Fin area) = Inr (Fin v)"
    unfolding v_eq using az c(7) unfolding v_eq by (rule rdiv_na_faixa)
  have s8: "rmul (Fin v) (Fin dm) = Fin (v * dm)" using c(8) by (rule rmul_na_faixa)
  have nz: "nu p \<noteq> 0" using nup by simp
  have s9: "rdiv (Fin (v * dm)) (Fin (nu p)) = Inr (Fin re)"
    unfolding re_eq using nz c(9) unfolding re_eq by (rule rdiv_na_faixa)
  have R2': "4000 < re \<longrightarrow>
          list_all na_faixa
            [3.7 * dm, epsm / (3.7 * dm), re powr 0.9, 5.74 / (re powr 0.9),
             epsm / (3.7 * dm) + 5.74 / (re powr 0.9)]
          \<and> (0 < epsm / (3.7 * dm) + 5.74 / (re powr 0.9) \<longrightarrow>
               list_all na_faixa
                 [log 10 (epsm / (3.7 * dm) + 5.74 / (re powr 0.9)),
                  (log 10 (epsm / (3.7 * dm) + 5.74 / (re powr 0.9)))\<^sup>2])"
    using R2 unfolding t_eq .
  have sf: "fator_atrito_faixa (Fin re) (Fin epsm) (Fin dm) =
      (if 4000 < re \<and> t = 1 then Inl ZeroDivisionError else Inr (Fin f))"
    unfolding f_eq t_eq
    by (rule fator_atrito_faixa_exato [OF dmp _ R2']) (use c(10) in \<open>unfold f_eq\<close>)
  have nd: "\<not> d \<le> 0" using d by simp
  have "calcular_perda_carga_faixa q d L eps K fl =
      py_bind (if 4000 < re \<and> t = 1 then Inl ZeroDivisionError else Inr (Fin f)) (\<lambda>f.
        py_bind (rdiv (Fin L) (Fin dm)) (\<lambda>l_d.
            py_bind (carga_cinetica (Fin v)) (\<lambda>carga.
            py_bind (carga_cinetica (Fin v)) (\<lambda>carga'.
            Inr \<lparr>principal = rmul (rmul f l_d) carga,
                 localizada = rmul (Fin K) carga',
                 velocidade = Fin v\<rparr>))))"
    unfolding calcular_perda_carga_faixa_def Let_def
    by (simp only: nd if_False s1 s2 s3 py_bind_Inr fl option.case s4 s5 s6 s7 nup if_True
        s8 s9 sf)
  then show ?thesis unfolding re_def t_def f_def dm_def v_def .
qed




section \<open>Inputs of moderate magnitude are inside the range\<close>

lemma magnitude_mult:
  assumes "magnitude a x" "magnitude b y"
  shows "magnitude (a + b) (x * y)"
proof -
  have x: "1 / 10 ^ a \<le> \<bar>x\<bar>" "\<bar>x\<bar> \<le> 10 ^ a" and y: "1 / 10 ^ b \<le> \<bar>y\<bar>" "\<bar>y\<bar> \<le> 10 ^ b"
    using assms by (simp_all add: magnitude_def)
  have "\<bar>x\<bar> * \<bar>y\<bar> \<le> 10 ^ a * 10 ^ b" using x(2) y(2) by (intro mult_mono) auto
  moreover have "(1 / 10 ^ a) * (1 / 10 ^ b) \<le> \<bar>x\<bar> * \<bar>y\<bar>"
    using x(1) y(1) by (intro mult_mono) auto
  ultimately show ?thesis by (simp add: magnitude_def abs_mult power_add)
qed

lemma magnitude_inverse:
  assumes "magnitude b y"
  shows "magnitude b (1 / y)"
proof -
  have y: "1 / 10 ^ b \<le> \<bar>y\<bar>" "\<bar>y\<bar> \<le> 10 ^ b" using assms by (simp_all add: magnitude_def)
  have p: "0 < \<bar>y\<bar>"
  proof -
    have "(0::real) < 1 / 10 ^ b" by simp
    then show ?thesis using y(1) by linarith
  qed
  have "1 \<le> \<bar>y\<bar> * 10 ^ b" using y(1) by (simp add: pos_divide_le_eq)
  then have "1 / \<bar>y\<bar> \<le> 10 ^ b" using p by (simp add: pos_divide_le_eq mult.commute)
  moreover have "1 / 10 ^ b \<le> 1 / \<bar>y\<bar>" using y(2) p by (intro divide_left_mono) auto
  ultimately show ?thesis by (simp add: magnitude_def)
qed

lemma magnitude_div:
  assumes "magnitude a x" "magnitude b y"
  shows "magnitude (a + b) (x / y)"
  using magnitude_mult [OF assms(1) magnitude_inverse [OF assms(2)]] by simp

lemma magnitude_pow2: "magnitude a x \<Longrightarrow> magnitude (a + a) (x\<^sup>2)"
  unfolding power2_eq_square by (rule magnitude_mult)

lemma magnitude_mono:
  assumes "magnitude a x" "a \<le> b"
  shows "magnitude b x"
proof -
  have "(10::real) ^ a \<le> 10 ^ b" using assms(2) by (intro power_increasing) auto
  moreover from this have "1 / (10::real) ^ b \<le> 1 / 10 ^ a" by (intro divide_left_mono) auto
  ultimately show ?thesis using assms(1) unfolding magnitude_def by linarith
qed

lemma magnitude_add:
  assumes "magnitude a x" "magnitude b y" "0 < x" "0 \<le> y"
  shows "magnitude (max a b + 1) (x + y)"
proof -
  have x: "magnitude (max a b) x" using assms(1) by (rule magnitude_mono) simp
  have y: "magnitude (max a b) y" using assms(2) by (rule magnitude_mono) simp
  define m where "m = max a b"
  have "x + y \<le> 10 ^ m + 10 ^ m" using x y assms(3,4) unfolding magnitude_def m_def by simp
  moreover have "(0::real) \<le> 10 ^ m" by simp
  ultimately have "x + y \<le> 10 * 10 ^ m" by linarith
  then have u: "x + y \<le> 10 ^ (m + 1)" by simp
  have "1 / 10 ^ (m + 1) \<le> 1 / (10::real) ^ m" by (intro divide_left_mono) auto
  moreover have "1 / 10 ^ m \<le> x" using x assms(3) unfolding magnitude_def m_def by simp
  ultimately have "1 / 10 ^ (m + 1) \<le> x + y" using assms(4) by linarith
  with u show ?thesis using assms(3,4) unfolding magnitude_def m_def [symmetric] by simp
qed


lemma UNF_less: "UNF < 1 / 10 ^ 300"
  unfolding UNF_def by simp

lemma OVF_greater: "10 ^ 300 < OVF"
  unfolding OVF_def by simp

lemma na_faixa_magnitude:
  assumes "magnitude n x" "n \<le> 300"
  shows "na_faixa x"
proof -
  have "magnitude 300 x" using assms by (rule magnitude_mono)
  then show ?thesis using UNF_less OVF_greater unfolding magnitude_def na_faixa_def by linarith
qed

lemma magnitude_pi: "magnitude 1 pi"
  using pi_greater_313 pi_less_3147 by (simp add: magnitude_def)



lemma log10_magnitude:
  assumes "0 < t" "magnitude n t"
  shows "- real n \<le> log 10 t" "log 10 t \<le> real n"
proof -
  have t: "1 / 10 ^ n \<le> t" "t \<le> 10 ^ n" using assms by (simp_all add: magnitude_def)
  have "log 10 (1 / 10 ^ n) \<le> log 10 t" using t(1) assms(1) by (subst log_le_cancel_iff) auto
  moreover have "log 10 (1 / 10 ^ n) = - real n"
    by (simp add: log_divide)
  ultimately show "- real n \<le> log 10 t" by simp
  have "log 10 t \<le> log 10 (10 ^ n)" using t(2) assms(1) by (subst log_le_cancel_iff) auto
  then show "log 10 t \<le> real n" by simp
qed

lemma log10_decimo: "0 < t \<Longrightarrow> t \<le> 1 / 10 \<Longrightarrow> log 10 t \<le> - 1"
proof -
  assume a: "0 < t" "t \<le> 1 / 10"
  have "log 10 t \<le> log 10 (1 / 10)" using a by (subst log_le_cancel_iff) auto
  moreover have "log 10 (1 / 10) = - 1" by (simp add: log_divide)
  ultimately show ?thesis by simp
qed

lemma powr09_magnitude:
  assumes "4000 < re" "magnitude n re"
  shows "magnitude n (re powr 0.9)"
proof -
  have lo: "1000 \<le> re powr 0.9" using assms(1) by (intro powr09_lower) simp
  have "re powr 0.9 \<le> re powr 1" using assms(1) by (intro powr_mono) auto
  then have hi: "re powr 0.9 \<le> re" using assms(1) by simp
  have a: "re \<le> 10 ^ n" using assms by (simp add: magnitude_def)
  have b: "1 / (10::real) ^ n \<le> 1"
    by (simp add: divide_le_eq_1)
  have "0 \<le> re powr 0.9" by simp
  then have c: "\<bar>re powr 0.9\<bar> = re powr 0.9" by (rule abs_of_nonneg)
  show ?thesis unfolding magnitude_def c using a b lo hi by linarith
qed





section \<open>The energy calculation and the pipeline inside the range\<close>











section \<open>The friction factor by regime, inside the range\<close>

lemma termo_log_decimo:
  assumes "4000 \<le> reynolds_de q d visc" "0 < d" "0 \<le> eps" "eps \<le> 0.3 * d"
  shows "termo_log_de q d eps visc \<le> 1 / 10"
proof -
  have y: "5.74 / (reynolds_de q d visc powr 0.9) \<le> 0.00574"
    using assms(1) by (rule termo_re_bounds(2))
  have "eps / (3.7 * d) \<le> 0.3 * d / (3.7 * d)"
    using assms(2,4) by (intro divide_right_mono) auto
  also have "\<dots> = 3 / 37" using assms(2) by simp
  finally have "eps / (3.7 * d) \<le> 3 / 37" .
  then show ?thesis unfolding termo_log_de_split [OF assms(2)] using y by simp
qed









section \<open>The cost does not grow with the diameter, inside the range\<close>






section \<open>Outside the range\<close>

lemma OVF_less: "OVF < 10 ^ 309"
  unfolding OVF_def by simp

lemma UNF_greater: "1 / 10 ^ 324 < UNF"
  unfolding UNF_def by simp

lemma rdiv_constante: "c \<noteq> 0 \<Longrightarrow> rdiv (Fin a) (Fin c) = Inr (arred (a / c))"
  by simp

lemma rdiv_constante_na_faixa:
  "c \<noteq> 0 \<Longrightarrow> a / c = b \<Longrightarrow> na_faixa b \<Longrightarrow> rdiv (Fin a) (Fin c) = Inr (Fin b)"
  by (simp add: arred_na_faixa)

lemma nz_3600: "(3600::real) \<noteq> 0" and nz_1000: "(1000::real) \<noteq> 0"
  by simp_all

lemma rdiv_por_zero: "rdiv x (Fin 0) = Inl ZeroDivisionError"
  by (cases x) simp_all

text \<open>
  Outside the range the two embeddings differ. With a diameter of 10^200 mm, line 37
  raises OverflowError, whatever the other arguments are.
\<close>

lemma perda_carga_faixa_diametro_enorme:
  "calcular_perda_carga_faixa q (10 ^ 200) L eps K agua = Inl OverflowError"
proof -
  have dm: "(10::real) ^ 200 / 1000 = 10 ^ 197" by simp
  have "magnitude 197 ((10::real) ^ 197)" unfolding magnitude_def by simp
  then have n: "na_faixa ((10::real) ^ 197)" by (rule na_faixa_magnitude) simp
  have s2: "rdiv (Fin (10 ^ 200)) (Fin 1000) = Inr (Fin (10 ^ 197))"
    using nz_1000 dm n by (rule rdiv_constante_na_faixa)
  have "OVF \<le> ((10::real) ^ 197)\<^sup>2"
  proof -
    have "(10::real) ^ 309 \<le> (10 ^ 197)\<^sup>2" by simp
    then show ?thesis using OVF_less by linarith
  qed
  then have s4: "rpow2 (Fin (10 ^ 197)) = Inl OverflowError" by simp
  have nd: "\<not> (10::real) ^ 200 \<le> 0" by simp
  show ?thesis
    unfolding calcular_perda_carga_faixa_def
    by (simp only: nd if_False rdiv_constante [OF nz_3600, of q] rdiv_constante [OF nz_1000, of eps] s2 py_bind_Inr FLUIDOS_agua option.case s4
        py_bind_Inl)
qed

text \<open>
  With a diameter of 10^-170 mm the square of the diameter in metres underflows to zero,
  so does the area, and line 38 raises ZeroDivisionError, whatever the other arguments
  are.
\<close>

lemma perda_carga_faixa_diametro_infimo:
  "calcular_perda_carga_faixa q (1 / 10 ^ 170) L eps K agua = Inl ZeroDivisionError"
proof -
  have dm: "(1::real) / 10 ^ 170 / 1000 = 1 / 10 ^ 173" by simp
  have "magnitude 173 ((1::real) / 10 ^ 173)" unfolding magnitude_def by simp
  then have n: "na_faixa ((1::real) / 10 ^ 173)" by (rule na_faixa_magnitude) simp
  have s2: "rdiv (Fin (1 / 10 ^ 170)) (Fin 1000) = Inr (Fin (1 / 10 ^ 173))"
    using nz_1000 dm n by (rule rdiv_constante_na_faixa)
  have z: "arred 0 = Fin 0" using UNF_pos OVF_pos by (simp add: arred_def)
  have sq: "(((1::real) / 10 ^ 173))\<^sup>2 = 1 / 10 ^ 346" by (simp add: power_divide)
  have small: "(1::real) / 10 ^ 346 \<le> UNF"
  proof -
    have "(1::real) / 10 ^ 346 \<le> 1 / 10 ^ 324" by simp
    then show ?thesis using UNF_greater by linarith
  qed
  have "arred (1 / 10 ^ 346) = Fin 0"
  proof -
    have "\<not> OVF \<le> 1 / 10 ^ 346" using small UNF_less_OVF by linarith
    moreover have "\<not> 1 / 10 ^ 346 \<le> - OVF" using OVF_pos by simp
    moreover have "\<bar>(1::real) / 10 ^ 346\<bar> \<le> UNF" using small by simp
    ultimately show ?thesis unfolding arred_def by (simp only: if_True if_False)
  qed
  moreover have "\<not> OVF \<le> ((1::real) / 10 ^ 173)\<^sup>2"
    unfolding sq using small UNF_less_OVF by linarith
  ultimately have s4: "rpow2 (Fin (1 / 10 ^ 173)) = Inr (Fin 0)"
    unfolding rpow2.simps sq by (simp only: if_False)
  have s5: "rmul (Fin pi) (Fin 0) = Fin 0" using z by simp
  have s6: "rdiv (Fin 0) (Fin 4) = Inr (Fin 0)" using z by simp
  have nd: "\<not> (1::real) / 10 ^ 170 \<le> 0" by simp
  show ?thesis
    unfolding calcular_perda_carga_faixa_def
    by (simp only: nd if_False rdiv_constante [OF nz_3600, of q] rdiv_constante [OF nz_1000, of eps] s2 py_bind_Inr FLUIDOS_agua option.case s4
        s5 s6 rdiv_por_zero py_bind_Inl)
qed



text \<open>
  Where every intermediate result up to the friction factor is inside the range and the
  square of the velocity is not, line 54 raises OverflowError.
\<close>

lemma perda_carga_faixa_velocidade_enorme:
  assumes d: "0 < d" and fl: "FLUIDOS fl = Some p"
    and A: "list_all na_faixa
       [q / 3600, d / 1000, eps / 1000, (d / 1000)\<^sup>2, pi * (d / 1000)\<^sup>2,
        pi * (d / 1000)\<^sup>2 / 4, veloc_de q d, veloc_de q d * (d / 1000),
        reynolds_de q d (nu p), fator_de q d eps (nu p)]"
    and B: "4000 < reynolds_de q d (nu p) \<longrightarrow>
          list_all na_faixa
            [3.7 * (d / 1000), eps / 1000 / (3.7 * (d / 1000)),
             reynolds_de q d (nu p) powr 0.9, 5.74 / (reynolds_de q d (nu p) powr 0.9),
             termo_log_de q d eps (nu p)]
          \<and> (0 < termo_log_de q d eps (nu p) \<longrightarrow>
               list_all na_faixa
                 [log 10 (termo_log_de q d eps (nu p)),
                  (log 10 (termo_log_de q d eps (nu p)))\<^sup>2])"
    and N: "4000 < reynolds_de q d (nu p) \<longrightarrow> termo_log_de q d eps (nu p) \<noteq> 1"
    and V: "OVF \<le> (veloc_de q d)\<^sup>2"
  shows "calcular_perda_carga_faixa q d L eps K fl = Inl OverflowError"
proof -
  have n: "\<not> (4000 < reynolds_de q d (nu p) \<and> termo_log_de q d eps (nu p) = 1)"
    using N by simp
  have dz: "d / 1000 \<noteq> 0" using d by simp
  have s1: "rdiv (Fin L) (Fin (d / 1000)) = Inr (arred (L / (d / 1000)))"
    using dz by (rule rdiv_constante)
  have s2: "carga_cinetica (Fin (veloc_de q d)) = Inl OverflowError"
    unfolding carga_cinetica_def rpow2.simps using V by (simp only: if_True py_bind_Inl)
  show ?thesis
    unfolding perda_carga_faixa_passos [OF d fl A B]
    using n by (simp only: if_False py_bind_Inr s1 s2 py_bind_Inl)
qed

lemma veloc_de_linear: "veloc_de q d = q / 50 * veloc_de 50 d"
  by (simp add: veloc_de_def)

lemma reynolds_de_linear: "reynolds_de q d visc = q / 50 * reynolds_de 50 d visc"
  by (simp add: reynolds_de_def veloc_de_def)

text \<open>
  With a flow of 10^200 m3/h of water in a pipe of 100 mm, which the form accepts, the
  square of the velocity overflows.
\<close>

lemma perda_carga_faixa_vazao_enorme:
  "calcular_perda_carga_faixa (10 ^ 200) 100 100 0.15 5 agua = Inl OverflowError"
proof -
  define q where "q = (10::real) ^ 200"
  define visc where "visc = (1.004 / 10 ^ 6 :: real)"
  define dm where "dm = (100 / 1000 :: real)"
  define epsm where "epsm = (0.15 / 1000 :: real)"
  define qs where "qs = q / 3600"
  define area where "area = pi * dm\<^sup>2 / 4"
  define v where "v = veloc_de q 100"
  define re where "re = reynolds_de q 100 visc"
  define rel where "rel = epsm / (3.7 * dm)"
  define rt where "rt = 5.74 / (re powr 0.9)"
  define t where "t = termo_log_de q 100 0.15 visc"
  define f where "f = fator_de q 100 0.15 visc"
  have v_eq: "v = qs / area" unfolding v_def veloc_de_def qs_def area_def dm_def ..
  have re_eq: "re = v * dm / visc" unfolding re_def reynolds_de_def v_def dm_def ..
  have t_eq: "t = rel + rt"
    unfolding t_def termo_log_de_def rel_def rt_def epsm_def dm_def re_def ..
  have f_eq: "f = (if 4000 < re then (if 0 < t then 0.25 / (log 10 t)\<^sup>2 else 0)
                   else if 0 < re then 64 / re else 0)"
    unfolding f_def fator_de_def re_def [symmetric] t_def [symmetric] ..
  have q_big: "10 ^ 198 \<le> q / 50"
  proof -
    have "q / 50 = 2 * 10 ^ 198" unfolding q_def by simp
    then show ?thesis by simp
  qed
  have v_big: "10 ^ 198 \<le> v"
  proof -
    have "10 ^ 198 * 1 \<le> q / 50 * veloc_de 50 100"
      using q_big veloc_agua_100_bounds(1) by (intro mult_mono) auto
    then show ?thesis unfolding v_def veloc_de_linear [of q] by simp
  qed
  have re_big: "4000 < re"
  proof -
    have "1 * 4001 \<le> q / 50 * reynolds_de 50 100 visc"
      using q_big reynolds_agua_100 unfolding visc_def by (intro mult_mono) auto
    then show ?thesis unfolding re_def reynolds_de_linear [of q] by simp
  qed
  have cq: "magnitude 200 q" and c3600: "magnitude 4 (3600::real)"
    and c4: "magnitude 1 (4::real)" and c37: "magnitude 1 (3.7::real)"
    and c574: "magnitude 1 (5.74::real)" and c025: "magnitude 1 (0.25::real)"
    and cvisc: "magnitude 6 visc" and m_dm: "magnitude 1 dm" and m_epsm: "magnitude 4 epsm"
    by (simp_all add: magnitude_def q_def visc_def dm_def epsm_def)
  have m_qs: "magnitude 204 qs"
    unfolding qs_def by (rule magnitude_mono [OF magnitude_div [OF cq c3600]]) simp
  have m_dm2: "magnitude 2 (dm\<^sup>2)"
    by (rule magnitude_mono [OF magnitude_pow2 [OF m_dm]]) simp
  have m_pd: "magnitude 3 (pi * dm\<^sup>2)"
    by (rule magnitude_mono [OF magnitude_mult [OF magnitude_pi m_dm2]]) simp
  have m_area: "magnitude 4 area"
    unfolding area_def by (rule magnitude_mono [OF magnitude_div [OF m_pd c4]]) simp
  have m_v: "magnitude 208 v"
    unfolding v_eq by (rule magnitude_mono [OF magnitude_div [OF m_qs m_area]]) simp
  have m_vd: "magnitude 209 (v * dm)"
    by (rule magnitude_mono [OF magnitude_mult [OF m_v m_dm]]) simp
  have m_re: "magnitude 215 re"
    unfolding re_eq by (rule magnitude_mono [OF magnitude_div [OF m_vd cvisc]]) simp
  have m_37: "magnitude 2 (3.7 * dm)"
    by (rule magnitude_mono [OF magnitude_mult [OF c37 m_dm]]) simp
  have m_rel: "magnitude 6 rel"
    unfolding rel_def by (rule magnitude_mono [OF magnitude_div [OF m_epsm m_37]]) simp
  have rel_pos: "0 < rel" unfolding rel_def epsm_def dm_def by simp
  have m_pw: "magnitude 215 (re powr 0.9)" using re_big m_re by (rule powr09_magnitude)
  have m_rt: "magnitude 216 rt"
    unfolding rt_def by (rule magnitude_mono [OF magnitude_div [OF c574 m_pw]]) simp
  have rt_pos: "0 < rt" unfolding rt_def using termo_re_bounds(1) [of re] re_big by simp
  have "magnitude (max 216 6 + 1) (rt + rel)"
    using m_rt m_rel rt_pos by (rule magnitude_add) (use rel_pos in simp)
  then have m_t: "magnitude 217 t" unfolding t_eq by (simp add: add.commute)
  have t_pos: "0 < t" unfolding t_eq using rt_pos rel_pos by linarith
  have t_dec: "t \<le> 1 / 10"
    unfolding t_def using re_big unfolding re_def
    by (intro termo_log_decimo) simp_all
  have lg1: "log 10 t \<le> - 1" using t_pos t_dec by (rule log10_decimo)
  have lg2: "- real (217::nat) \<le> log 10 t" using t_pos m_t by (rule log10_magnitude(1))
  have m_lg: "magnitude 3 (log 10 t)" using lg1 lg2 unfolding magnitude_def by simp
  have m_lg2: "magnitude 6 ((log 10 t)\<^sup>2)"
    by (rule magnitude_mono [OF magnitude_pow2 [OF m_lg]]) simp
  have ft: "f = 0.25 / (log 10 t)\<^sup>2" unfolding f_eq using re_big t_pos by simp
  have m_f: "magnitude 7 f"
    unfolding ft by (rule magnitude_mono [OF magnitude_div [OF c025 m_lg2]]) simp
  have A: "list_all na_faixa
       [qs, dm, epsm, dm\<^sup>2, pi * dm\<^sup>2, area, v, v * dm, re, f]"
    by (simp add: na_faixa_magnitude [OF m_qs] na_faixa_magnitude [OF m_dm]
        na_faixa_magnitude [OF m_epsm] na_faixa_magnitude [OF m_dm2]
        na_faixa_magnitude [OF m_pd] na_faixa_magnitude [OF m_area] na_faixa_magnitude [OF m_v]
        na_faixa_magnitude [OF m_vd] na_faixa_magnitude [OF m_re] na_faixa_magnitude [OF m_f])
  have B: "4000 < re \<longrightarrow>
          list_all na_faixa [3.7 * dm, rel, re powr 0.9, rt, t]
          \<and> (0 < t \<longrightarrow> list_all na_faixa [log 10 t, (log 10 t)\<^sup>2])"
  proof -
    have "na_faixa (3.7 * dm)" using m_37 by (rule na_faixa_magnitude) simp
    moreover have "na_faixa rel" using m_rel by (rule na_faixa_magnitude) simp
    moreover have "na_faixa (re powr 0.9)" using m_pw by (rule na_faixa_magnitude) simp
    moreover have "na_faixa rt" using m_rt by (rule na_faixa_magnitude) simp
    moreover have "na_faixa t" using m_t by (rule na_faixa_magnitude) simp
    moreover have "na_faixa (log 10 t)" using m_lg by (rule na_faixa_magnitude) simp
    moreover have "na_faixa ((log 10 t)\<^sup>2)" using m_lg2 by (rule na_faixa_magnitude) simp
    ultimately show ?thesis by simp
  qed
  have N: "4000 < re \<longrightarrow> t \<noteq> 1" using t_dec by simp
  have V: "OVF \<le> v\<^sup>2"
  proof -
    have "((10::real) ^ 198)\<^sup>2 \<le> v\<^sup>2" using v_big by (intro power_mono) auto
    moreover have "(10::real) ^ 309 \<le> (10 ^ 198)\<^sup>2" by simp
    ultimately show ?thesis using OVF_less by linarith
  qed
  have nuv: "nu \<lparr>rho = 998.2, nu = 1.004 / 10 ^ 6\<rparr> = visc" unfolding visc_def by simp
  have "calcular_perda_carga_faixa q 100 100 0.15 5 agua = Inl OverflowError"
  proof (rule perda_carga_faixa_velocidade_enorme [OF _ FLUIDOS_agua])
    show "(0::real) < 100" by simp
    show "list_all na_faixa
       [q / 3600, 100 / 1000, 0.15 / 1000, (100 / 1000)\<^sup>2, pi * (100 / 1000)\<^sup>2,
        pi * (100 / 1000)\<^sup>2 / 4, veloc_de q 100, veloc_de q 100 * (100 / 1000),
        reynolds_de q 100 (nu \<lparr>rho = 998.2, nu = 1.004 / 10 ^ 6\<rparr>),
        fator_de q 100 0.15 (nu \<lparr>rho = 998.2, nu = 1.004 / 10 ^ 6\<rparr>)]"
      unfolding nuv using A
      unfolding qs_def dm_def epsm_def area_def v_def re_def f_def .
    show "4000 < reynolds_de q 100 (nu \<lparr>rho = 998.2, nu = 1.004 / 10 ^ 6\<rparr>) \<longrightarrow>
          list_all na_faixa
            [3.7 * (100 / 1000), 0.15 / 1000 / (3.7 * (100 / 1000)),
             reynolds_de q 100 (nu \<lparr>rho = 998.2, nu = 1.004 / 10 ^ 6\<rparr>) powr 0.9,
             5.74 / (reynolds_de q 100 (nu \<lparr>rho = 998.2, nu = 1.004 / 10 ^ 6\<rparr>) powr 0.9),
             termo_log_de q 100 0.15 (nu \<lparr>rho = 998.2, nu = 1.004 / 10 ^ 6\<rparr>)]
          \<and> (0 < termo_log_de q 100 0.15 (nu \<lparr>rho = 998.2, nu = 1.004 / 10 ^ 6\<rparr>) \<longrightarrow>
               list_all na_faixa
                 [log 10 (termo_log_de q 100 0.15 (nu \<lparr>rho = 998.2, nu = 1.004 / 10 ^ 6\<rparr>)),
                  (log 10 (termo_log_de q 100 0.15
                     (nu \<lparr>rho = 998.2, nu = 1.004 / 10 ^ 6\<rparr>)))\<^sup>2])"
      unfolding nuv using B
      unfolding dm_def epsm_def re_def t_def rel_def rt_def .
    show "4000 < reynolds_de q 100 (nu \<lparr>rho = 998.2, nu = 1.004 / 10 ^ 6\<rparr>) \<longrightarrow>
        termo_log_de q 100 0.15 (nu \<lparr>rho = 998.2, nu = 1.004 / 10 ^ 6\<rparr>) \<noteq> 1"
      unfolding nuv using N unfolding re_def t_def .
    show "OVF \<le> (veloc_de q 100)\<^sup>2" using V unfolding v_def .
  qed
  then show ?thesis unfolding q_def .
qed

text \<open>So the head losses followed by the energy calculation give no cost there.\<close>

lemma analise_tubulacao_faixa_vazao_enorme:
  "analise_tubulacao_faixa (10 ^ 200) 100 100 0.15 5 agua 15 0.7 0.9 8 0.75
     = Inl OverflowError"
  unfolding analise_tubulacao_faixa_def perda_carga_faixa_vazao_enorme by simp


section \<open>The fluid name is not the only input that raises\<close>

lemma FLUIDOS_etanol: "FLUIDOS etanol = Some \<lparr>rho = 789.0, nu = 1.51 / 10 ^ 6\<rparr>"
  by (simp add: FLUIDOS_def agua_def etanol_def)

lemma reynolds_etanol_100: "4000 < reynolds_de 50 100 (1.51 / 10 ^ 6)"
proof -
  have "reynolds_de 50 100 (1.51 / 10 ^ 6) = veloc_de 50 100 * (100000 / 1.51)"
    by (simp add: reynolds_de_def)
  moreover have "1 * (100000 / 1.51) < veloc_de 50 100 * (100000 / 1.51 :: real)"
    using veloc_agua_100_bounds(1) by (intro mult_strict_right_mono) auto
  ultimately show ?thesis by simp
qed

text \<open>
  Claim C10 as it is stated says that a fluid name outside the table is the only
  degenerate input that raises instead of giving a sentinel result. It is not: with
  ethanol, which is in the table, 50 m3/h and a pipe of 100 mm, the roughness
  3.7 * 100 * (1 - 5.74 / Re^0.9) makes the argument of the logarithm 1, and
  calcular\_perda\_carga raises ZeroDivisionError.
\<close>

theorem rugosidade_degenerada_sem_sentinela:
  "etanol \<in> dom FLUIDOS
   \<and> calcular_perda_carga 50 100 100
        (3.7 * 100 * (1 - 5.74 / (reynolds_de 50 100 (1.51 / 10 ^ 6) powr 0.9))) 5 etanol
      = Inl ZeroDivisionError"
proof
  show "etanol \<in> dom FLUIDOS" by (simp add: dom_FLUIDOS)
  have re: "4000 < reynolds_de 50 100 (nu \<lparr>rho = 789.0, nu = 1.51 / 10 ^ 6\<rparr>)"
    using reynolds_etanol_100 by simp
  have t: "termo_log_de 50 100 (3.7 * 100 * (1 - 5.74 / (reynolds_de 50 100 (1.51 / 10 ^ 6) powr 0.9)))
      (1.51 / 10 ^ 6) = 1"
    using termo_log_um [of 100 50 "1.51 / 10 ^ 6"] reynolds_etanol_100 by simp
  show "calcular_perda_carga 50 100 100
        (3.7 * 100 * (1 - 5.74 / (reynolds_de 50 100 (1.51 / 10 ^ 6) powr 0.9))) 5 etanol
      = Inl ZeroDivisionError"
    unfolding perda_carga_turbulento [OF _ FLUIDOS_etanol re, of 100, simplified] 
    using t by simp
qed

text \<open>The lookup of the fluid fails in the same way when the range of the floats is kept.\<close>

lemma perda_carga_faixa_KeyError:
  "0 < d \<Longrightarrow> FLUIDOS fl = None \<Longrightarrow> calcular_perda_carga_faixa q d L eps K fl = Inl KeyError"
  by (simp add: calcular_perda_carga_faixa_def)

lemma analise_energetica_faixa_KeyError:
  "FLUIDOS fl = None \<Longrightarrow> calcular_analise_energetica_faixa q h eb em horas c fl = Inl KeyError"
  by (simp add: calcular_analise_energetica_faixa_def)

end
